theory Spec2Isabelle
  imports Complex_Main "HOL-Library.Sublist"
begin

section \<open>Python values: exceptions and indexing\<close>

text \<open>
  The module \<^verbatim>\<open>ai2_kit/domain/dplr.py\<close> is embedded function by function. A Python
  function that may raise returns \<open>py_exn + 'a\<close>, with \<open>Inl\<close> the exception. Floats are
  modelled as \<open>real\<close>.
\<close>

datatype value_error =
    WannierCount nat nat    \<comment> \<open>"wannier atoms ii has cn atoms in the cutoff range"\<close>
  | SysChargeMapLength      \<comment> \<open>"type_map and sys_charge_map must have the same length"\<close>
  | ModelChargeMapLength    \<comment> \<open>"sel_type and model_charge_map must have the same length"\<close>
  | ReshapeSize             \<comment> \<open>numpy: "cannot reshape array of size n into shape s"\<close>

datatype py_exn =
    ValueError value_error
  | AssertionError
  | IndexError
  | UnboundLocalError

definition ebind :: "py_exn + 'a \<Rightarrow> ('a \<Rightarrow> py_exn + 'b) \<Rightarrow> py_exn + 'b" where
  "ebind m f = (case m of Inl e \<Rightarrow> Inl e | Inr x \<Rightarrow> f x)"

text \<open>\<^verbatim>\<open>xs[i]\<close> for a Python list or a numpy axis: a negative index counts from the end.\<close>

definition py_index :: "'a list \<Rightarrow> int \<Rightarrow> py_exn + 'a" where
  "py_index xs i =
     (if 0 \<le> i \<and> i < int (length xs) then Inr (xs ! nat i)
      else if i < 0 \<and> - int (length xs) \<le> i then Inr (xs ! nat (int (length xs) + i))
      else Inl IndexError)"

text \<open>\<^verbatim>\<open>np.array(xs)[ids]\<close> with an integer index array.\<close>

fun np_take :: "'a list \<Rightarrow> int list \<Rightarrow> py_exn + 'a list" where
  "np_take xs [] = Inr []"
| "np_take xs (i # is) =
     (case py_index xs i of
        Inl e \<Rightarrow> Inl e
      | Inr x \<Rightarrow> (case np_take xs is of Inl e \<Rightarrow> Inl e | Inr ys \<Rightarrow> Inr (x # ys)))"

text \<open>\<^verbatim>\<open>xs[mask]\<close> with a boolean mask of the same length, and \<^verbatim>\<open>np.where(mask)[0]\<close>.\<close>

definition np_select :: "bool list \<Rightarrow> 'a list \<Rightarrow> 'a list" where
  "np_select msk xs = map snd (filter fst (zip msk xs))"

definition np_where :: "bool list \<Rightarrow> nat list" where
  "np_where msk = filter (\<lambda>i. msk ! i) [0..<length msk]"

section \<open>Unused element symbols\<close>

text \<open>
  \<^verbatim>\<open>get_unused_symbols\<close> scans \<^verbatim>\<open>reversed(chemical_symbols)\<close>. The table
  \<^verbatim>\<open>ase.data.chemical_symbols\<close> belongs to the ase library, so it is the parameter \<open>cs\<close>.
  The loop appends first and tests the length afterwards, on every iteration.
\<close>

fun unused_loop :: "string list \<Rightarrow> nat \<Rightarrow> string list \<Rightarrow> string list \<Rightarrow> string list" where
  "unused_loop used_symbols sz [] unused_symbols = unused_symbols"
| "unused_loop used_symbols sz (symbol # rest) unused_symbols =
     (let unused_symbols' =
            (if symbol \<notin> set used_symbols then unused_symbols @ [symbol] else unused_symbols)
      in if length unused_symbols' = sz then unused_symbols'
         else unused_loop used_symbols sz rest unused_symbols')"

definition get_unused_symbols :: "string list \<Rightarrow> string list \<Rightarrow> nat \<Rightarrow> string list" where
  "get_unused_symbols cs used_symbols sz = unused_loop used_symbols sz (rev cs) []"

text \<open>The table of ase 3.22 (\<open>X\<close> for the dummy element, then H to Og), used for concrete runs.\<close>

definition ase_chemical_symbols :: "string list" where
  "ase_chemical_symbols =
    [''X'', ''H'', ''He'', ''Li'', ''Be'', ''B'', ''C'', ''N'', ''O'', ''F'', ''Ne'',
     ''Na'', ''Mg'', ''Al'', ''Si'', ''P'', ''S'', ''Cl'', ''Ar'',
     ''K'', ''Ca'', ''Sc'', ''Ti'', ''V'', ''Cr'', ''Mn'', ''Fe'', ''Co'', ''Ni'', ''Cu'',
     ''Zn'', ''Ga'', ''Ge'', ''As'', ''Se'', ''Br'', ''Kr'',
     ''Rb'', ''Sr'', ''Y'', ''Zr'', ''Nb'', ''Mo'', ''Tc'', ''Ru'', ''Rh'', ''Pd'', ''Ag'',
     ''Cd'', ''In'', ''Sn'', ''Sb'', ''Te'', ''I'', ''Xe'',
     ''Cs'', ''Ba'', ''La'', ''Ce'', ''Pr'', ''Nd'', ''Pm'', ''Sm'', ''Eu'', ''Gd'', ''Tb'',
     ''Dy'', ''Ho'', ''Er'', ''Tm'', ''Yb'', ''Lu'',
     ''Hf'', ''Ta'', ''W'', ''Re'', ''Os'', ''Ir'', ''Pt'', ''Au'', ''Hg'', ''Tl'', ''Pb'',
     ''Bi'', ''Po'', ''At'', ''Rn'',
     ''Fr'', ''Ra'', ''Ac'', ''Th'', ''Pa'', ''U'', ''Np'', ''Pu'', ''Am'', ''Cm'', ''Bk'',
     ''Cf'', ''Es'', ''Fm'', ''Md'', ''No'', ''Lr'',
     ''Rf'', ''Db'', ''Sg'', ''Bh'', ''Hs'', ''Mt'', ''Ds'', ''Rg'', ''Cn'', ''Nh'', ''Fl'',
     ''Mc'', ''Lv'', ''Ts'', ''Og'']"

section \<open>The virtual-atom builder\<close>

type_synonym vec3 = "real \<times> real \<times> real"

record atoms =
  symbols :: "string list"
  positions :: "vec3 list"

text \<open>
  ase's \<^verbatim>\<open>Atoms\<close> objects are mutable, and the builder updates two of them in place. The
  objects live in a store: a reference is an index into the list of objects, and a new
  object goes to the end. Of ase: \<^verbatim>\<open>atoms.copy()\<close> and \<^verbatim>\<open>atoms[mask]\<close> return new
  objects; \<^verbatim>\<open>set_chemical_symbols\<close> and \<^verbatim>\<open>+=\<close> update their receiver. \<open>atoms_mask\<close> is
  the structure that \<^verbatim>\<open>atoms[mask]\<close> holds.
\<close>

type_synonym heap = "atoms list"

definition alloc :: "heap \<Rightarrow> atoms \<Rightarrow> heap \<times> nat" where
  "alloc h a = (h @ [a], length h)"

definition atoms_len :: "heap \<Rightarrow> nat \<Rightarrow> nat" where
  "atoms_len h r = length (symbols (h ! r))"

definition atoms_copy :: "heap \<Rightarrow> nat \<Rightarrow> heap \<times> nat" where
  "atoms_copy h r = alloc h (h ! r)"

definition atoms_mask :: "bool list \<Rightarrow> atoms \<Rightarrow> atoms" where
  "atoms_mask msk a =
     \<lparr>symbols = np_select msk (symbols a), positions = np_select msk (positions a)\<rparr>"

definition atoms_getitem :: "heap \<Rightarrow> nat \<Rightarrow> bool list \<Rightarrow> heap \<times> nat" where
  "atoms_getitem h r msk = alloc h (atoms_mask msk (h ! r))"

definition set_chemical_symbols :: "heap \<Rightarrow> nat \<Rightarrow> string list \<Rightarrow> heap" where
  "set_chemical_symbols h r syms = h[r := (h ! r)\<lparr>symbols := syms\<rparr>]"

definition atoms_iadd :: "heap \<Rightarrow> nat \<Rightarrow> nat \<Rightarrow> heap" where
  "atoms_iadd h r v =
     h[r := \<lparr>symbols = symbols (h ! r) @ symbols (h ! v),
              positions = positions (h ! r) @ positions (h ! v)\<rparr>]"

text \<open>
  The loop \<^verbatim>\<open>for atype, vtype in zip(sel_type, vtypes)\<close>. \<^verbatim>\<open>type_map[atype]\<close> is a list
  index and may raise; the store is returned in every case.
\<close>

fun add_virtual_atoms ::
  "nat \<Rightarrow> nat \<Rightarrow> string list \<Rightarrow> (int \<times> string) list \<Rightarrow> heap \<Rightarrow> nat list \<Rightarrow> nat list
   \<Rightarrow> heap \<times> (py_exn + nat list \<times> nat list)" where
  "add_virtual_atoms atoms new_atoms type_map [] h r_atom_ids v_atom_ids =
     (h, Inr (r_atom_ids, v_atom_ids))"
| "add_virtual_atoms atoms new_atoms type_map ((atype, vtype) # rest) h r_atom_ids v_atom_ids =
     (case py_index type_map atype of
        Inl e \<Rightarrow> (h, Inl e)
      | Inr tsym \<Rightarrow>
          (let msk = map (\<lambda>s. s = tsym) (symbols (h ! atoms));
               (h1, v_atoms) = atoms_getitem h atoms msk;
               h2 = set_chemical_symbols h1 v_atoms (replicate (atoms_len h1 v_atoms) vtype);
               r_atom_ids' = r_atom_ids @ np_where msk;
               v_atom_ids' = v_atom_ids
                  @ map (\<lambda>k. k + atoms_len h2 new_atoms) [0..<atoms_len h2 v_atoms];
               h3 = atoms_iadd h2 new_atoms v_atoms
           in add_virtual_atoms atoms new_atoms type_map rest h3 r_atom_ids' v_atom_ids'))"

text \<open>\<^verbatim>\<open>charges[new_atoms.symbols == atype] = charge\<close>, for each pair of the zip in turn.\<close>

fun build_charges :: "string list \<Rightarrow> (string \<times> real) list \<Rightarrow> real list \<Rightarrow> real list" where
  "build_charges syms [] charges = charges"
| "build_charges syms ((atype, charge) # rest) charges =
     build_charges syms rest
       (map (\<lambda>(s, c). if s = atype then charge else c) (zip syms charges))"

text \<open>A bond row is (bond id, bond type, bond left, bond right), all counted from 1.\<close>

definition build_bonds :: "nat list \<Rightarrow> nat list \<Rightarrow> (nat \<times> nat \<times> nat \<times> nat) list" where
  "build_bonds r_atom_ids v_atom_ids =
     (let n_bonds = length r_atom_ids
      in map (\<lambda>(k, r, v). (k + 1, 1, r + 1, v + 1))
           (zip [0..<n_bonds] (zip r_atom_ids v_atom_ids)))"

text \<open>
  What the builder hands to the writer \<^verbatim>\<open>LammpsData\<close> (of \<^verbatim>\<open>ai2_kit.domain.util\<close>): the
  augmented structure, the charges, the bonds and the species order.
\<close>

record lammps_data =
  lmp_atoms :: atoms
  lmp_charges :: "real list"
  lmp_bonds :: "(nat \<times> nat \<times> nat \<times> nat) list"
  lmp_specorder :: "string list"

definition dump_dplr_lammps_data ::
  "string list \<Rightarrow> heap \<Rightarrow> nat \<Rightarrow> string list \<Rightarrow> int list \<Rightarrow> real list \<Rightarrow> real list
   \<Rightarrow> heap \<times> (py_exn + lammps_data)" where
  "dump_dplr_lammps_data cs h atoms type_map sel_type sys_charge_map model_charge_map =
     (if length type_map \<noteq> length sys_charge_map
        then (h, Inl (ValueError SysChargeMapLength))
      else if length sel_type \<noteq> length model_charge_map
        then (h, Inl (ValueError ModelChargeMapLength))
      else
        (let (h1, new_atoms) = atoms_copy h atoms;
             vtypes = get_unused_symbols cs type_map (length sel_type)
         in case add_virtual_atoms atoms new_atoms type_map (zip sel_type vtypes) h1 [] [] of
              (h2, Inl e) \<Rightarrow> (h2, Inl e)
            | (h2, Inr (r_atom_ids, v_atom_ids)) \<Rightarrow>
                (let charges = build_charges (symbols (h2 ! new_atoms))
                       (zip (type_map @ vtypes) (sys_charge_map @ model_charge_map))
                       (replicate (atoms_len h2 new_atoms) 0);
                     bonds = build_bonds r_atom_ids v_atom_ids
                 in (h2, Inr \<lparr>lmp_atoms = h2 ! new_atoms, lmp_charges = charges,
                               lmp_bonds = bonds, lmp_specorder = type_map @ vtypes\<rparr>))))"

text \<open>A water-like structure for concrete runs: two oxygen atoms, then four hydrogen atoms.\<close>

definition water2 :: atoms where
  "water2 = \<lparr>symbols = [''O'', ''O'', ''H'', ''H'', ''H'', ''H''],
             positions = [(0, 0, 0), (3, 0, 0), (1, 0, 0), (0, 1, 0), (4, 0, 0), (3, 1, 0)]\<rparr>"

section \<open>The format-version reshapers\<close>

text \<open>\<^verbatim>\<open>np.where(np.isin(symbols, sel))[0]\<close>: the positions whose symbol is selected.\<close>

definition isin_where :: "string list \<Rightarrow> string list \<Rightarrow> nat list" where
  "isin_where syms sel = filter (\<lambda>i. syms ! i \<in> set sel) [0..<length syms]"

text \<open>
  A stored tensor is a two-dimensional array, one flat row per frame. \<open>ncols\<close> is its
  second dimension.
\<close>

definition ncols :: "real list list \<Rightarrow> nat" where
  "ncols a = (case a of [] \<Rightarrow> 0 | r # _ \<Rightarrow> length r)"

text \<open>
  The body of the inner loop of \<^verbatim>\<open>dplr_v3_to_v2\<close>, for one file with its sibling
  \<^verbatim>\<open>type_map.raw\<close> and \<^verbatim>\<open>type.raw\<close>. numpy refuses \<^verbatim>\<open>reshape([n_frames, n_atoms, -1])\<close>
  when the known dimensions multiply to 0 or do not divide the size.
\<close>

definition dplr_v3_to_v2_file ::
  "string list \<Rightarrow> int list \<Rightarrow> string list \<Rightarrow> real list list \<Rightarrow> py_exn + real list list" where
  "dplr_v3_to_v2_file type_map atype sel_symbol raw_data =
     ebind (np_take type_map atype) (\<lambda>syms.
       let sel_ids = isin_where syms sel_symbol;
           n_atoms = length atype;
           n_frames = length raw_data
       in if n_frames * n_atoms = 0 \<or> (n_frames * ncols raw_data) mod (n_frames * n_atoms) \<noteq> 0
          then Inl (ValueError ReshapeSize)
          else (let n_dim = ncols raw_data div n_atoms
                in Inr (map (\<lambda>row. concat (map (\<lambda>i. take n_dim (drop (i * n_dim) row)) sel_ids))
                          raw_data)))"

text \<open>
  The body of the inner loop of \<^verbatim>\<open>dplr_v2_to_v3\<close>. Its line
  \<^verbatim>\<open>raw_data = np.load(fname).reshape([n_frames, len(sel_ids), -1])\<close> reads the local
  variable \<^verbatim>\<open>n_frames\<close>, which is assigned on the next line only: Python raises
  UnboundLocalError there, in the first iteration, and the lines after it never run.
\<close>

definition dplr_v2_to_v3_file ::
  "string list \<Rightarrow> int list \<Rightarrow> string list \<Rightarrow> real list list \<Rightarrow> py_exn + real list list" where
  "dplr_v2_to_v3_file type_map atype sel_symbol raw_data =
     ebind (np_take type_map atype) (\<lambda>syms.
       let sel_ids = isin_where syms sel_symbol;
           n_atoms = length atype
       in Inl UnboundLocalError)"

text \<open>
  The files found under the data root, in the order of the two loops. A file that has been
  processed is overwritten; an exception ends the run and leaves the other files as they are.
\<close>

record npy_file =
  f_type_map :: "string list"
  f_atype :: "int list"
  f_data :: "real list list"

fun dplr_v3_to_v2 :: "npy_file list \<Rightarrow> string list \<Rightarrow> npy_file list \<times> py_exn option" where
  "dplr_v3_to_v2 [] sel_symbol = ([], None)"
| "dplr_v3_to_v2 (f # fs) sel_symbol =
     (case dplr_v3_to_v2_file (f_type_map f) (f_atype f) sel_symbol (f_data f) of
        Inl e \<Rightarrow> (f # fs, Some e)
      | Inr d \<Rightarrow> (let (fs', r) = dplr_v3_to_v2 fs sel_symbol in (f\<lparr>f_data := d\<rparr> # fs', r)))"

fun dplr_v2_to_v3 :: "npy_file list \<Rightarrow> string list \<Rightarrow> npy_file list \<times> py_exn option" where
  "dplr_v2_to_v3 [] sel_symbol = ([], None)"
| "dplr_v2_to_v3 (f # fs) sel_symbol =
     (case dplr_v2_to_v3_file (f_type_map f) (f_atype f) sel_symbol (f_data f) of
        Inl e \<Rightarrow> (f # fs, Some e)
      | Inr d \<Rightarrow> (let (fs', r) = dplr_v2_to_v3 fs sel_symbol in (f\<lparr>f_data := d\<rparr> # fs', r)))"

section \<open>The dipole assignor\<close>

text \<open>
  A \<^verbatim>\<open>dpdata.LabeledSystem\<close>: the entries of its \<^verbatim>\<open>data\<close> dictionary that the module uses.
  \<^verbatim>\<open>coords\<close> has one list of atom positions per frame and \<^verbatim>\<open>cells\<close> one cell per frame;
  \<^verbatim>\<open>get_nframes()\<close> is the number of cells and \<^verbatim>\<open>get_natoms()\<close> the number of atom types.
  The two last fields are the entries the module adds.
\<close>

type_synonym cell = "vec3 \<times> vec3 \<times> vec3"

type_synonym cellpar = "real \<times> real \<times> real \<times> real \<times> real \<times> real"

record dp_sys =
  data_atom_names :: "string list"
  data_atom_types :: "int list"
  data_coords :: "vec3 list list"
  data_cells :: "cell list"
  data_atomic_dipole :: "vec3 list list option"
  data_wannier_spread :: "real list list list option"

text \<open>
  The geometry routines come from other libraries and are parameters: ase's
  \<^verbatim>\<open>cell_to_cellpar\<close>, and of MDAnalysis the periodic distance of two points, of which
  \<^verbatim>\<open>distance_array\<close> is the table, and the minimum image of one vector, which
  \<^verbatim>\<open>minimize_vectors\<close> applies to each vector of an array.
\<close>

record geometry =
  cell_to_cellpar :: "cell \<Rightarrow> cellpar"
  pbc_distance :: "cellpar \<Rightarrow> vec3 \<Rightarrow> vec3 \<Rightarrow> real"
  minimize_vector :: "cellpar \<Rightarrow> vec3 \<Rightarrow> vec3"

definition distance_array :: "geometry \<Rightarrow> vec3 list \<Rightarrow> vec3 list \<Rightarrow> cellpar \<Rightarrow> real list list" where
  "distance_array L ref_coords e_coords box =
     map (\<lambda>r. map (\<lambda>e. pbc_distance L box r e) e_coords) ref_coords"

definition minimize_vectors :: "geometry \<Rightarrow> vec3 list \<Rightarrow> cellpar \<Rightarrow> vec3 list" where
  "minimize_vectors L vs box = map (minimize_vector L box) vs"

fun vadd :: "vec3 \<Rightarrow> vec3 \<Rightarrow> vec3" where
  "vadd (x1, y1, z1) (x2, y2, z2) = (x1 + x2, y1 + y2, z1 + z2)"

fun vsub :: "vec3 \<Rightarrow> vec3 \<Rightarrow> vec3" where
  "vsub (x1, y1, z1) (x2, y2, z2) = (x1 - x2, y1 - y2, z1 - z2)"

fun vscale :: "real \<Rightarrow> vec3 \<Rightarrow> vec3" where
  "vscale a (x, y, z) = (a * x, a * y, a * z)"

text \<open>\<^verbatim>\<open>vs.mean(axis=0)\<close> of an array of 3-vectors.\<close>

definition vec_mean :: "vec3 list \<Rightarrow> vec3" where
  "vec_mean vs =
     (sum_list (map fst vs) / real (length vs),
      sum_list (map (fst \<circ> snd) vs) / real (length vs),
      sum_list (map (snd \<circ> snd) vs) / real (length vs))"

definition get_sel_ids :: "dp_sys \<Rightarrow> string list \<Rightarrow> int list \<Rightarrow> py_exn + nat list" where
  "get_sel_ids dp type_map sel_type =
     ebind (np_take (data_atom_names dp) (data_atom_types dp)) (\<lambda>syms.
     ebind (np_take type_map sel_type) (\<lambda>sel.
       Inr (isin_where syms sel)))"

text \<open>
  The loop \<^verbatim>\<open>for ii, dist_vec in enumerate(dist_mat)\<close> with its four accumulators. Each row
  of \<^verbatim>\<open>dist_mat\<close> has one distance per Wannier centre. \<^verbatim>\<open>full_wannier_spread[mask]\<close> is a
  boolean index: numpy raises IndexError when the mask and the array differ in length.
\<close>

fun assign_loop ::
  "geometry \<Rightarrow> cellpar \<Rightarrow> real \<Rightarrow> real list option \<Rightarrow> vec3 list \<Rightarrow> vec3 list
   \<Rightarrow> (nat \<times> real list) list
   \<Rightarrow> vec3 list \<Rightarrow> real list list \<Rightarrow> nat list list \<Rightarrow> vec3 list
   \<Rightarrow> py_exn + vec3 list \<times> real list list \<times> nat list list \<times> vec3 list" where
  "assign_loop L box wannier_cutoff full_wannier_spread ref_coords e_coords []
       atomic_dipole wannier_spread mlwc_ids extended_coords =
     Inr (atomic_dipole, wannier_spread, mlwc_ids, extended_coords)"
| "assign_loop L box wannier_cutoff full_wannier_spread ref_coords e_coords ((ii, dist_vec) # rest)
       atomic_dipole wannier_spread mlwc_ids extended_coords =
     (let msk = map (\<lambda>d. d < wannier_cutoff) dist_vec;
          cn = length (filter id msk)
      in if cn \<noteq> 4 then Inl (ValueError (WannierCount ii cn))
         else
           (let mlwc_ids' = mlwc_ids @ [np_where msk];
                wc_coord_rel = map (\<lambda>e. vsub e (ref_coords ! ii)) (np_select msk e_coords)
            in case (case full_wannier_spread of
                       None \<Rightarrow> Inr wannier_spread
                     | Some fws \<Rightarrow>
                         if length fws \<noteq> length msk then Inl IndexError
                         else Inr (wannier_spread @ [np_select msk fws])) of
                 Inl e \<Rightarrow> Inl e
               | Inr wannier_spread' \<Rightarrow>
                   (let wc_coord_rel' = minimize_vectors L wc_coord_rel box;
                        dipole = vec_mean wc_coord_rel';
                        wc_coord = vadd dipole (ref_coords ! ii)
                    in assign_loop L box wannier_cutoff full_wannier_spread ref_coords e_coords rest
                         (atomic_dipole @ [dipole]) wannier_spread' mlwc_ids'
                         (extended_coords @ [wc_coord]))))"

text \<open>
  \<^verbatim>\<open>get_atomic_dipole\<close>. Its argument \<open>wannier_spread_file\<close> is the array that
  \<^verbatim>\<open>read_wannier_spread\<close> returns for the file, one row of two numbers per line, if a
  file is given; \<^verbatim>\<open>[:, -1]\<close> takes the second column, and raises IndexError on the
  one-dimensional array that no row gives. \<^verbatim>\<open>cells.reshape(3, 3)\<close> needs exactly one
  frame. The two final checks are \<^verbatim>\<open>assert\<close> statements.
\<close>

definition get_atomic_dipole ::
  "geometry \<Rightarrow> dp_sys \<Rightarrow> nat list \<Rightarrow> atoms \<Rightarrow> real \<Rightarrow> (real \<times> real) list option
   \<Rightarrow> py_exn + vec3 list \<times> vec3 list \<times> real list list" where
  "get_atomic_dipole L dp sel_ids wannier_atoms wannier_cutoff wannier_spread_file =
     (let coords = concat (data_coords dp)
      in ebind (case data_cells dp of [c] \<Rightarrow> Inr c | _ \<Rightarrow> Inl (ValueError ReshapeSize)) (\<lambda>c.
         let cellpar = cell_to_cellpar L c;
             extended_coords = coords
         in ebind (case wannier_spread_file of
                     None \<Rightarrow> Inr None
                   | Some rows \<Rightarrow> if rows = [] then Inl IndexError else Inr (Some (map snd rows)))
              (\<lambda>full_wannier_spread.
            ebind (np_take coords (map int sel_ids)) (\<lambda>ref_coords.
              let e_coords = positions wannier_atoms;
                  dist_mat = distance_array L ref_coords e_coords cellpar
              in ebind (assign_loop L cellpar wannier_cutoff full_wannier_spread ref_coords e_coords
                          (enumerate 0 dist_mat) [] [] [] extended_coords)
                   (\<lambda>(atomic_dipole, wannier_spread, mlwc_ids, extended_coords').
                      if length (remdups (concat mlwc_ids)) \<noteq> length sel_ids * 4
                        then Inl AssertionError
                      else if length atomic_dipole \<noteq> length sel_ids then Inl AssertionError
                      else Inr (atomic_dipole, extended_coords', wannier_spread))))))"

text \<open>\<^verbatim>\<open>full[:, sel_ids] = values\<close> on the one frame: the k-th value goes to row \<open>sel_ids ! k\<close>.\<close>

definition scatter :: "'a list \<Rightarrow> nat list \<Rightarrow> 'a list \<Rightarrow> 'a list" where
  "scatter full sel_ids vals = fold (\<lambda>(i, v) a. a[i := v]) (zip sel_ids vals) full"

text \<open>
  \<^verbatim>\<open>set_dplr_ext_from_cp2k_output\<close>. \<open>wannier_file\<close> is the structure that \<^verbatim>\<open>ase.io.read\<close>
  returns for the file. The system is updated at the very end only.
\<close>

definition set_dplr_ext_from_cp2k_output ::
  "geometry \<Rightarrow> dp_sys \<Rightarrow> atoms \<Rightarrow> string list \<Rightarrow> int list \<Rightarrow> real \<Rightarrow> (real \<times> real) list option
   \<Rightarrow> py_exn + dp_sys" where
  "set_dplr_ext_from_cp2k_output L dp wannier_file type_map sel_type wannier_cutoff wannier_spread_file =
     (let msk = map (\<lambda>s. s = ''X'') (symbols wannier_file);
          wannier_atoms = atoms_mask msk wannier_file;
          natoms = length (data_atom_types dp);
          nframes = length (data_cells dp)
      in if nframes \<noteq> 1 then Inl AssertionError
         else
           ebind (get_sel_ids dp type_map sel_type) (\<lambda>sel_ids.
           ebind (get_atomic_dipole L dp sel_ids wannier_atoms wannier_cutoff wannier_spread_file)
             (\<lambda>(atomic_dipole, extended_coords, wannier_spread).
                let atomic_dipole_reformat = scatter (replicate natoms (0, 0, 0)) sel_ids atomic_dipole;
                    wannier_spread_reformat =
                      scatter (replicate natoms [0, 0, 0, 0]) sel_ids wannier_spread;
                    dp' = dp\<lparr>data_atomic_dipole := Some [atomic_dipole_reformat]\<rparr>
                in if length wannier_spread > 0
                   then Inr (dp'\<lparr>data_wannier_spread := Some [wannier_spread_reformat]\<rparr>)
                   else Inr dp')))"

text \<open>
  \<^verbatim>\<open>dpdata_read_cp2k_dplr_data\<close>, from the parsed CP2K output on. \<^verbatim>\<open>except ValueError\<close>
  turns a ValueError into the result \<^verbatim>\<open>None\<close>; every other exception goes on to the caller.
\<close>

definition dpdata_read_cp2k_dplr_data ::
  "geometry \<Rightarrow> dp_sys \<Rightarrow> atoms \<Rightarrow> string list \<Rightarrow> int list \<Rightarrow> real \<Rightarrow> (real \<times> real) list option
   \<Rightarrow> py_exn + dp_sys option" where
  "dpdata_read_cp2k_dplr_data L cp2k_output wannier_file type_map sel_type wannier_cutoff
       wannier_spread_file =
     (case set_dplr_ext_from_cp2k_output L cp2k_output wannier_file type_map sel_type
             wannier_cutoff wannier_spread_file of
        Inl (ValueError v) \<Rightarrow> Inr None
      | Inl e \<Rightarrow> Inl e
      | Inr dp_sys \<Rightarrow> Inr (Some dp_sys))"

text \<open>
  For the statements: the centres within the cutoff of an atom at \<open>r\<close>, their indices in
  the list of centres, and the mean of the minimum images of their displacements from \<open>r\<close>.
\<close>

definition centres_within :: "geometry \<Rightarrow> cellpar \<Rightarrow> real \<Rightarrow> vec3 list \<Rightarrow> vec3 \<Rightarrow> vec3 list" where
  "centres_within L box cutoff e_coords r = filter (\<lambda>e. pbc_distance L box r e < cutoff) e_coords"

definition ids_within :: "geometry \<Rightarrow> cellpar \<Rightarrow> real \<Rightarrow> vec3 list \<Rightarrow> vec3 \<Rightarrow> nat list" where
  "ids_within L box cutoff e_coords r =
     filter (\<lambda>j. pbc_distance L box r (e_coords ! j) < cutoff) [0..<length e_coords]"

definition mean_image :: "geometry \<Rightarrow> cellpar \<Rightarrow> real \<Rightarrow> vec3 list \<Rightarrow> vec3 \<Rightarrow> vec3" where
  "mean_image L box cutoff e_coords r =
     vec_mean (map (\<lambda>e. minimize_vector L box (vsub e r)) (centres_within L box cutoff e_coords r))"

definition spread_fits :: "(real \<times> real) list option \<Rightarrow> vec3 list \<Rightarrow> bool" where
  "spread_fits wannier_spread_file e_coords =
     (case wannier_spread_file of
        None \<Rightarrow> True
      | Some rows \<Rightarrow> rows \<noteq> [] \<and> length rows = length e_coords)"

definition matched_ids :: "geometry \<Rightarrow> cellpar \<Rightarrow> real \<Rightarrow> vec3 list \<Rightarrow> vec3 list \<Rightarrow> nat list" where
  "matched_ids L box cutoff e_coords refs = concat (map (ids_within L box cutoff e_coords) refs)"

definition atom_spread :: "geometry \<Rightarrow> cellpar \<Rightarrow> real \<Rightarrow> vec3 list \<Rightarrow> real list \<Rightarrow> vec3 \<Rightarrow> real list" where
  "atom_spread L box cutoff e_coords fws r =
     map snd (filter (\<lambda>(e, s). pbc_distance L box r e < cutoff) (zip e_coords fws))"

text \<open>
  For concrete runs: an orthorhombic box, where the minimum image wraps each component to
  the nearest multiple of the box length and the periodic distance is the Euclidean norm of
  the minimum image of the difference.
\<close>

definition wrap :: "real \<Rightarrow> real \<Rightarrow> real" where
  "wrap a x = x - a * of_int (round (x / a))"

fun box_cellpar :: "cell \<Rightarrow> cellpar" where
  "box_cellpar ((ax, ay, az), (bx, by, bz), (cx, cy, cz)) = (ax, by, cz, 90, 90, 90)"

fun box_minimize :: "cellpar \<Rightarrow> vec3 \<Rightarrow> vec3" where
  "box_minimize (a, b, c, al, be, ga) (x, y, z) = (wrap a x, wrap b y, wrap c z)"

fun norm3 :: "vec3 \<Rightarrow> real" where
  "norm3 (x, y, z) = sqrt (x * x + y * y + z * z)"

definition box_geometry :: geometry where
  "box_geometry =
     \<lparr>cell_to_cellpar = box_cellpar,
      pbc_distance = (\<lambda>box r e. norm3 (box_minimize box (vsub e r))),
      minimize_vector = box_minimize\<rparr>"

text \<open>
  Two frames in a cubic box of side 10. In \<open>frame_ok\<close> the oxygen atoms sit at the origin
  and at (5, 5, 5), each with four centres at distance 1/2; in \<open>frame_shared\<close> the second
  oxygen sits at (1, 0, 0), and the centre at (1/2, 0, 0) is within the cutoff 1 of both.
\<close>

definition cell10 :: cell where
  "cell10 = ((10, 0, 0), (0, 10, 0), (0, 0, 10))"

definition frame_ok :: dp_sys where
  "frame_ok = \<lparr>data_atom_names = [''O'', ''H''], data_atom_types = [0, 1, 0],
     data_coords = [[(0, 0, 0), (1, 1, 0), (5, 5, 5)]], data_cells = [cell10],
     data_atomic_dipole = None, data_wannier_spread = None\<rparr>"

definition wannier_ok :: atoms where
  "wannier_ok = \<lparr>symbols = [''O'', ''H'', ''O'', ''X'', ''X'', ''X'', ''X'', ''X'', ''X'', ''X'', ''X''],
     positions = [(0, 0, 0), (1, 1, 0), (5, 5, 5),
                  (1/2, 0, 0), (19/2, 0, 0), (0, 1/2, 0), (0, 0, 1/2),
                  (11/2, 5, 5), (9/2, 5, 5), (5, 11/2, 5), (5, 5, 9/2)]\<rparr>"

definition spread_ok :: "(real \<times> real) list" where
  "spread_ok = [(1, 11), (2, 12), (3, 13), (4, 14), (5, 15), (6, 16), (7, 17), (8, 18)]"

definition frame_shared :: dp_sys where
  "frame_shared = \<lparr>data_atom_names = [''O'', ''H''], data_atom_types = [0, 0],
     data_coords = [[(0, 0, 0), (1, 0, 0)]], data_cells = [cell10],
     data_atomic_dipole = None, data_wannier_spread = None\<rparr>"

definition wannier_shared :: atoms where
  "wannier_shared = \<lparr>symbols = [''O'', ''O'', ''X'', ''X'', ''X'', ''X'', ''X'', ''X'', ''X''],
     positions = [(0, 0, 0), (1, 0, 0),
                  (1/2, 0, 0), (19/2, 0, 0), (0, 1/2, 0), (0, 0, 1/2),
                  (3/2, 0, 0), (1, 1/2, 0), (1, 0, 1/2)]\<rparr>"

text \<open>
  The Wannier centres of these frames as the assignor receives them, and a variant of the
  first frame that lacks the last centre, with a spread file of seven rows.
\<close>

definition centres_ok :: atoms where
  "centres_ok = \<lparr>symbols = [''X'', ''X'', ''X'', ''X'', ''X'', ''X'', ''X'', ''X''],
     positions = [(1/2, 0, 0), (19/2, 0, 0), (0, 1/2, 0), (0, 0, 1/2),
                  (11/2, 5, 5), (9/2, 5, 5), (5, 11/2, 5), (5, 5, 9/2)]\<rparr>"

definition centres_short :: atoms where
  "centres_short = \<lparr>symbols = [''X'', ''X'', ''X'', ''X'', ''X'', ''X'', ''X''],
     positions = [(1/2, 0, 0), (19/2, 0, 0), (0, 1/2, 0), (0, 0, 1/2),
                  (11/2, 5, 5), (9/2, 5, 5), (5, 11/2, 5)]\<rparr>"

definition centres_shared :: atoms where
  "centres_shared = \<lparr>symbols = [''X'', ''X'', ''X'', ''X'', ''X'', ''X'', ''X''],
     positions = [(1/2, 0, 0), (19/2, 0, 0), (0, 1/2, 0), (0, 0, 1/2),
                  (3/2, 0, 0), (1, 1/2, 0), (1, 0, 1/2)]\<rparr>"

definition wannier_short :: atoms where
  "wannier_short = \<lparr>symbols = [''O'', ''H'', ''O'', ''X'', ''X'', ''X'', ''X'', ''X'', ''X'', ''X''],
     positions = [(0, 0, 0), (1, 1, 0), (5, 5, 5),
                  (1/2, 0, 0), (19/2, 0, 0), (0, 1/2, 0), (0, 0, 1/2),
                  (11/2, 5, 5), (9/2, 5, 5), (5, 11/2, 5)]\<rparr>"

definition spread_short :: "(real \<times> real) list" where
  "spread_short = [(1, 11), (2, 12), (3, 13), (4, 14), (5, 15), (6, 16), (7, 17)]"

section \<open>Properties of the unused-symbol selection\<close>

lemma unused_loop_take:
  "\<exists>k. unused_loop used sz rest acc = acc @ take k (filter (\<lambda>s. s \<notin> set used) rest)"
proof (induction rest arbitrary: acc)
  case Nil
  then show ?case by simp
next
  case (Cons symbol rest)
  show ?case
  proof (cases "symbol \<in> set used")
    case True
    then show ?thesis
      using Cons.IH [of acc] by (auto simp: Let_def intro: exI [of _ 0])
  next
    case False
    obtain k where k: "unused_loop used sz rest (acc @ [symbol])
        = (acc @ [symbol]) @ take k (filter (\<lambda>s. s \<notin> set used) rest)"
      using Cons.IH [of "acc @ [symbol]"] by blast
    show ?thesis
    proof (cases "length (acc @ [symbol]) = sz")
      case True
      with False show ?thesis
        by (auto simp: Let_def intro!: exI [of _ "Suc 0"])
    next
      case stop: False
      with False k show ?thesis
        by (auto simp: Let_def intro!: exI [of _ "Suc k"])
    qed
  qed
qed

lemma get_unused_symbols_take:
  "\<exists>k. get_unused_symbols cs used sz = take k (filter (\<lambda>s. s \<notin> set used) (rev cs))"
  using unused_loop_take [of used sz "rev cs" "[]"] by (simp add: get_unused_symbols_def)

text \<open>
  Claim C9. The unused-symbol selection is a function of its inputs (the same inputs give
  the same symbols): its result is an initial segment of the canonical element list scanned
  in reverse order and restricted to the symbols that are not in use. No returned symbol is
  in the used-symbol list, and the returned symbols are pairwise distinct, the canonical
  list being free of repetitions.
\<close>

theorem get_unused_symbols_fresh:
  "prefix (get_unused_symbols cs used sz) (filter (\<lambda>s. s \<notin> set used) (rev cs))
   \<and> set (get_unused_symbols cs used sz) \<inter> set used = {}
   \<and> (distinct cs \<longrightarrow> distinct (get_unused_symbols cs used sz))"
proof -
  obtain k where k: "get_unused_symbols cs used sz
      = take k (filter (\<lambda>s. s \<notin> set used) (rev cs))"
    using get_unused_symbols_take by blast
  have "prefix (get_unused_symbols cs used sz) (filter (\<lambda>s. s \<notin> set used) (rev cs))"
    unfolding k by (rule take_is_prefix)
  moreover have "set (get_unused_symbols cs used sz) \<inter> set used = {}"
    unfolding k by (auto dest: in_set_takeD)
  moreover have "distinct cs \<longrightarrow> distinct (get_unused_symbols cs used sz)"
    unfolding k by simp
  ultimately show ?thesis by blast
qed

theorem get_unused_symbols_fresh_witness:
  "distinct ase_chemical_symbols
   \<and> get_unused_symbols ase_chemical_symbols [''Og'', ''H''] 2 = [''Ts'', ''Lv'']
   \<and> prefix [''Ts'', ''Lv''] (filter (\<lambda>s. s \<notin> set [''Og'', ''H'']) (rev ase_chemical_symbols))
   \<and> set [''Ts'', ''Lv''] \<inter> set [''Og'', ''H''] = {}
   \<and> distinct [''Ts'', ''Lv'']"
proof -
  have d: "distinct ase_chemical_symbols"
    unfolding ase_chemical_symbols_def by simp
  have g: "get_unused_symbols ase_chemical_symbols [''Og'', ''H''] 2 = [''Ts'', ''Lv'']"
    by (simp add: get_unused_symbols_def ase_chemical_symbols_def)
  show ?thesis
    using get_unused_symbols_fresh [of ase_chemical_symbols "[''Og'', ''H'']" 2] d
    unfolding g by simp
qed

section \<open>Properties of the virtual-atom builder\<close>

lemma unused_loop_one:
  "unused_loop used (Suc 0) rest [] = take (Suc 0) (filter (\<lambda>s. s \<notin> set used) rest)"
  by (induction rest) (simp_all add: Let_def)

lemma get_unused_symbols_one:
  assumes "\<exists>s\<in>set cs. s \<notin> set used"
  shows "\<exists>v. v \<notin> set used \<and> get_unused_symbols cs used (Suc 0) = [v]"
proof -
  let ?f = "filter (\<lambda>s. s \<notin> set used) (rev cs)"
  from assms have "?f \<noteq> []" by (auto simp: filter_empty_conv)
  then obtain v vs where f: "?f = v # vs" by (cases ?f) auto
  then have "v \<in> set ?f" by simp
  then have "v \<notin> set used" by simp
  moreover have "get_unused_symbols cs used (Suc 0) = [v]"
    by (simp add: get_unused_symbols_def unused_loop_one f)
  ultimately show ?thesis by blast
qed

lemma dump_water_fixed:
  assumes a: "atoms < length h"
      and w: "h ! atoms = \<lparr>symbols = [''O'', ''O'', ''H'', ''H'', ''H'', ''H''],
                           positions = [p0, p1, p2, p3, p4, p5]\<rparr>"
      and v: "v \<noteq> ''O''" "v \<noteq> ''H''"
      and g: "get_unused_symbols cs [''O'', ''H''] (Suc 0) = [v]"
  shows "snd (dump_dplr_lammps_data cs h atoms [''O'', ''H''] [0] [6, 1] [-8])
       = Inr \<lparr>lmp_atoms = \<lparr>symbols = [''O'', ''O'', ''H'', ''H'', ''H'', ''H'', v, v],
                             positions = [p0, p1, p2, p3, p4, p5, p0, p1]\<rparr>,
               lmp_charges = [6, 6, 1, 1, 1, 1, -8, -8],
               lmp_bonds = [(1, 1, 1, 7), (2, 1, 2, 8)],
               lmp_specorder = [''O'', ''H'', v]\<rparr>"
  using a v
  by (simp add: dump_dplr_lammps_data_def g atoms_copy_def alloc_def Let_def py_index_def
       atoms_getitem_def atoms_mask_def set_chemical_symbols_def atoms_iadd_def atoms_len_def
       np_select_def
       np_where_def build_bonds_def nth_append w)

text \<open>
  Claim C7. For type_map = [O, H], sel_type = [0], sys_charge_map = [6, 1],
  model_charge_map = [-8] and a structure of two oxygen atoms followed by four hydrogen
  atoms, the builder produces a structure of 8 atoms, the last two being the virtual
  partners of the two oxygen atoms under an unused symbol, the two bonds (1, 1, 1, 7) and
  (2, 1, 2, 8), and the charges [6, 6, 1, 1, 1, 1, -8, -8]. The element table only has to
  hold some symbol other than O and H.
\<close>

theorem dump_water_example:
  assumes "atoms < length h"
      and "h ! atoms = \<lparr>symbols = [''O'', ''O'', ''H'', ''H'', ''H'', ''H''],
                         positions = [p0, p1, p2, p3, p4, p5]\<rparr>"
      and "\<exists>s\<in>set cs. s \<notin> set [''O'', ''H'']"
  shows "\<exists>v. v \<notin> set [''O'', ''H'']
           \<and> get_unused_symbols cs [''O'', ''H''] 1 = [v]
           \<and> snd (dump_dplr_lammps_data cs h atoms [''O'', ''H''] [0] [6, 1] [-8])
             = Inr \<lparr>lmp_atoms = \<lparr>symbols = [''O'', ''O'', ''H'', ''H'', ''H'', ''H'', v, v],
                                   positions = [p0, p1, p2, p3, p4, p5, p0, p1]\<rparr>,
                     lmp_charges = [6, 6, 1, 1, 1, 1, -8, -8],
                     lmp_bonds = [(1, 1, 1, 7), (2, 1, 2, 8)],
                     lmp_specorder = [''O'', ''H'', v]\<rparr>"
proof -
  obtain v where v: "v \<notin> set [''O'', ''H'']"
      and g: "get_unused_symbols cs [''O'', ''H''] (Suc 0) = [v]"
    using get_unused_symbols_one [OF assms(3)] by blast
  from v have "v \<noteq> ''O''" "v \<noteq> ''H''" by auto
  from dump_water_fixed [OF assms(1) assms(2) this g] v g show ?thesis
    by (intro exI [of _ v]) simp
qed

theorem dump_water_example_witness:
  "(0::nat) < length [water2]
   \<and> (\<exists>s\<in>set ase_chemical_symbols. s \<notin> set [''O'', ''H''])
   \<and> (\<exists>v. v \<notin> set [''O'', ''H'']
         \<and> get_unused_symbols ase_chemical_symbols [''O'', ''H''] 1 = [v]
         \<and> snd (dump_dplr_lammps_data ase_chemical_symbols [water2] 0 [''O'', ''H''] [0] [6, 1] [-8])
           = Inr \<lparr>lmp_atoms = \<lparr>symbols = [''O'', ''O'', ''H'', ''H'', ''H'', ''H'', v, v],
                     positions = [(0, 0, 0), (3, 0, 0), (1, 0, 0), (0, 1, 0), (4, 0, 0),
                                  (3, 1, 0), (0, 0, 0), (3, 0, 0)]\<rparr>,
                   lmp_charges = [6, 6, 1, 1, 1, 1, -8, -8],
                   lmp_bonds = [(1, 1, 1, 7), (2, 1, 2, 8)],
                   lmp_specorder = [''O'', ''H'', v]\<rparr>)"
proof -
  have a: "(0::nat) < length [water2]" by simp
  have w: "[water2] ! 0 = \<lparr>symbols = [''O'', ''O'', ''H'', ''H'', ''H'', ''H''],
      positions = [(0, 0, 0), (3, 0, 0), (1, 0, 0), (0, 1, 0), (4, 0, 0), (3, 1, 0)]\<rparr>"
    by (simp add: water2_def)
  have s: "\<exists>s\<in>set ase_chemical_symbols. s \<notin> set [''O'', ''H'']"
    by (rule bexI [of _ "''Og''"]) (simp_all add: ase_chemical_symbols_def)
  from dump_water_example [OF a w s] a s show ?thesis by simp
qed

text \<open>
  Claim C8. When the system charge map and the type map differ in length, or the model
  charge map and the selected-type list do, the builder raises the length-mismatch error at
  once: the store is as it was (no copy has been made), and the result depends on no atom,
  no element table and no entry of the selected-type list.
\<close>

theorem dump_length_mismatch:
  assumes "length type_map \<noteq> length sys_charge_map \<or> length sel_type \<noteq> length model_charge_map"
  shows "dump_dplr_lammps_data cs h atoms type_map sel_type sys_charge_map model_charge_map
       = (h, Inl (ValueError (if length type_map \<noteq> length sys_charge_map
                              then SysChargeMapLength else ModelChargeMapLength)))"
  using assms by (auto simp: dump_dplr_lammps_data_def)

theorem dump_length_mismatch_witness:
  "length [''O'', ''H''] \<noteq> length [6::real]
   \<and> dump_dplr_lammps_data ase_chemical_symbols [water2] 0 [''O'', ''H''] [7] [6] [-8]
     = ([water2], Inl (ValueError SysChargeMapLength))"
proof -
  have m: "length [''O'', ''H''] \<noteq> length [6::real] \<or> length [7::int] \<noteq> length [-8::real]"
    by simp
  from dump_length_mismatch [OF m, of ase_chemical_symbols "[water2]" 0] show ?thesis
    by simp
qed

lemma add_virtual_atoms_frame:
  "n \<le> new_atoms \<Longrightarrow> new_atoms < length h \<Longrightarrow>
   take n (fst (add_virtual_atoms atoms new_atoms type_map zs h r_ids v_ids)) = take n h"
proof (induction zs arbitrary: h r_ids v_ids)
  case Nil
  then show ?case by simp
next
  case (Cons z zs)
  obtain atype vtype where z: "z = (atype, vtype)" by (cases z)
  show ?case
  proof (cases "py_index type_map atype")
    case (Inl e)
    then show ?thesis by (simp add: z)
  next
    case (Inr tsym)
    define va where "va = atoms_mask (map (\<lambda>s. s = tsym) (symbols (h ! atoms))) (h ! atoms)"
    define h2 where "h2 = set_chemical_symbols (h @ [va]) (length h)
        (replicate (atoms_len (h @ [va]) (length h)) vtype)"
    define h3 where "h3 = atoms_iadd h2 new_atoms (length h)"
    have len: "length h3 = Suc (length h)"
      by (simp add: h3_def h2_def atoms_iadd_def set_chemical_symbols_def)
    have tk: "take n h3 = take n h"
      using Cons.prems by (simp add: h3_def h2_def atoms_iadd_def set_chemical_symbols_def)
    have "take n (fst (add_virtual_atoms atoms new_atoms type_map zs h3 r' v')) = take n h3" for r' v'
      using Cons.IH [of h3 r' v'] Cons.prems len by simp
    then show ?thesis
      using Inr tk
      by (simp add: z Let_def atoms_getitem_def alloc_def h3_def h2_def va_def)
  qed
qed

text \<open>
  Claim C10. The builder never changes the caller's structure: after every call, whether
  it returns the data for the writer or raises, the object at the caller's reference is
  the one that was there before, and so is every other object the store held.
\<close>

theorem dump_preserves_input:
  assumes "atoms < length h"
  shows "fst (dump_dplr_lammps_data cs h atoms type_map sel_type sys_charge_map model_charge_map) ! atoms
           = h ! atoms
       \<and> take (length h)
           (fst (dump_dplr_lammps_data cs h atoms type_map sel_type sys_charge_map model_charge_map))
           = h"
proof -
  let ?h' = "fst (dump_dplr_lammps_data cs h atoms type_map sel_type sys_charge_map model_charge_map)"
  have tk: "take (length h) ?h' = h"
  proof (cases "length type_map \<noteq> length sys_charge_map \<or> length sel_type \<noteq> length model_charge_map")
    case True
    then show ?thesis by (auto simp: dump_dplr_lammps_data_def)
  next
    case False
    let ?zs = "zip sel_type (get_unused_symbols cs type_map (length sel_type))"
    let ?r = "add_virtual_atoms atoms (length h) type_map ?zs (h @ [h ! atoms]) [] []"
    have "?h' = fst ?r"
      using False
      by (simp add: dump_dplr_lammps_data_def atoms_copy_def alloc_def Let_def
               split: prod.splits sum.splits)
    moreover have "take (length h) (fst ?r) = take (length h) (h @ [h ! atoms])"
      by (rule add_virtual_atoms_frame) simp_all
    ultimately show ?thesis by simp
  qed
  have "?h' ! atoms = take (length h) ?h' ! atoms"
    using assms by simp
  with tk show ?thesis by simp
qed

theorem dump_preserves_input_witness:
  "(0::nat) < length [water2]
   \<and> fst (dump_dplr_lammps_data ase_chemical_symbols [water2] 0 [''O'', ''H''] [0] [6, 1] [-8]) ! 0
     = water2
   \<and> take 1 (fst (dump_dplr_lammps_data ase_chemical_symbols [water2] 0 [''O'', ''H''] [0] [6, 1] [-8]))
     = [water2]"
proof -
  have a: "(0::nat) < length [water2]" by simp
  from dump_preserves_input [OF a, of ase_chemical_symbols "[''O'', ''H'']" "[0]" "[6, 1]" "[-8]"] a
  show ?thesis by simp
qed

section \<open>The reshapers\<close>

text \<open>
  Claim C6. The compact layout written by the v3-to-v2 gather should go through the
  v2-to-v3 scatter back to the zero-padded tensor. On the code it does not: the gather
  works, and the scatter raises UnboundLocalError on the file it is given, which stays in
  the compact layout. Here one frame of three atoms O, H, H with the oxygen selected and
  three values per atom.
\<close>

theorem dplr_roundtrip_raises:
  "dplr_v3_to_v2 [\<lparr>f_type_map = [''O'', ''H''], f_atype = [0, 1, 1],
                    f_data = [[1, 2, 3, 0, 0, 0, 0, 0, 0]]\<rparr>] [''O'']
     = ([\<lparr>f_type_map = [''O'', ''H''], f_atype = [0, 1, 1], f_data = [[1, 2, 3]]\<rparr>], None)
   \<and> dplr_v2_to_v3 [\<lparr>f_type_map = [''O'', ''H''], f_atype = [0, 1, 1],
                      f_data = [[1, 2, 3]]\<rparr>] [''O'']
     = ([\<lparr>f_type_map = [''O'', ''H''], f_atype = [0, 1, 1], f_data = [[1, 2, 3]]\<rparr>],
        Some UnboundLocalError)"
  by (simp add: dplr_v3_to_v2_file_def dplr_v2_to_v3_file_def ebind_def py_index_def
        isin_where_def ncols_def)

section \<open>The assignment loop\<close>

lemma np_select_self: "np_select (map P xs) xs = filter P xs"
  by (induction xs) (simp_all add: np_select_def)

lemma count_mask: "length (filter id (map P xs)) = length (filter P xs)"
  by (simp add: filter_map o_def)

lemma np_where_map: "np_where (map P xs) = filter (\<lambda>j. P (xs ! j)) [0..<length xs]"
  by (auto simp: np_where_def intro: filter_cong)

lemma assign_loop_Inr:
  assumes "\<forall>j<length rs. ref_coords ! (i + j) = rs ! j"
      and "assign_loop L box cutoff fws ref_coords e_coords
             (enumerate i (map (\<lambda>r. map (pbc_distance L box r) e_coords) rs)) ad ws ml ext
           = Inr (ad', ws', ml', ext')"
  shows "ad' = ad @ map (mean_image L box cutoff e_coords) rs
       \<and> ml' = ml @ map (ids_within L box cutoff e_coords) rs
       \<and> ext' = ext @ map (\<lambda>r. vadd (mean_image L box cutoff e_coords r) r) rs
       \<and> ws' = ws @ (case fws of None \<Rightarrow> []
                      | Some f \<Rightarrow> map (\<lambda>r. np_select (map (\<lambda>e. pbc_distance L box r e < cutoff) e_coords) f) rs)
       \<and> (\<forall>r\<in>set rs. length (centres_within L box cutoff e_coords r) = 4)"
  using assms
proof (induction rs arbitrary: i ad ws ml ext)
  case Nil
  then show ?case by (simp split: option.splits)
next
  case (Cons r rs)
  have r: "ref_coords ! i = r" using Cons.prems(1) by (auto dest: spec [of _ 0])
  have shift: "\<forall>j<length rs. ref_coords ! (Suc i + j) = rs ! j"
    using Cons.prems(1) by (auto dest: spec [of _ "Suc j" for j])
  from Cons.prems(2) have four: "length (centres_within L box cutoff e_coords r) = 4"
    by (auto simp: Let_def o_def count_mask centres_within_def split: if_splits)
  show ?case
  proof (cases fws)
    case None
    with Cons.prems(2) four have run: "assign_loop L box cutoff fws ref_coords e_coords
        (enumerate (Suc i) (map (\<lambda>r. map (pbc_distance L box r) e_coords) rs))
        (ad @ [mean_image L box cutoff e_coords r]) ws (ml @ [ids_within L box cutoff e_coords r])
        (ext @ [vadd (mean_image L box cutoff e_coords r) r]) = Inr (ad', ws', ml', ext')"
      by (simp add: Let_def o_def count_mask centres_within_def r np_select_self np_where_map
            ids_within_def mean_image_def minimize_vectors_def)
    from Cons.IH [OF shift run] four None show ?thesis by simp
  next
    case (Some f)
    with Cons.prems(2) four have len: "length f = length e_coords"
      by (auto simp: Let_def o_def count_mask centres_within_def split: if_splits)
    with Some Cons.prems(2) four have run: "assign_loop L box cutoff fws ref_coords e_coords
        (enumerate (Suc i) (map (\<lambda>r. map (pbc_distance L box r) e_coords) rs))
        (ad @ [mean_image L box cutoff e_coords r])
        (ws @ [np_select (map (\<lambda>e. pbc_distance L box r e < cutoff) e_coords) f])
        (ml @ [ids_within L box cutoff e_coords r])
        (ext @ [vadd (mean_image L box cutoff e_coords r) r]) = Inr (ad', ws', ml', ext')"
      by (simp add: Let_def o_def count_mask centres_within_def r np_select_self np_where_map
            ids_within_def mean_image_def minimize_vectors_def)
    from Cons.IH [OF shift run] four Some show ?thesis by simp
  qed
qed

lemma assign_loop_total:
  assumes "\<forall>j<length rs. ref_coords ! (i + j) = rs ! j"
      and "\<forall>r\<in>set rs. length (centres_within L box cutoff e_coords r) = 4"
      and "case fws of None \<Rightarrow> True | Some f \<Rightarrow> length f = length e_coords"
  shows "\<exists>res. assign_loop L box cutoff fws ref_coords e_coords
             (enumerate i (map (\<lambda>r. map (pbc_distance L box r) e_coords) rs)) ad ws ml ext
           = Inr res"
  using assms
proof (induction rs arbitrary: i ad ws ml ext)
  case Nil
  then show ?case by simp
next
  case (Cons r rs)
  have shift: "\<forall>j<length rs. ref_coords ! (Suc i + j) = rs ! j"
    using Cons.prems(1) by (auto dest: spec [of _ "Suc j" for j])
  have four: "length (centres_within L box cutoff e_coords r) = 4"
    using Cons.prems(2) by simp
  have rest: "\<forall>r\<in>set rs. length (centres_within L box cutoff e_coords r) = 4"
    using Cons.prems(2) by simp
  note IH = Cons.IH [OF shift rest Cons.prems(3)]
  show ?case
    using four Cons.prems(3) IH
    by (cases fws) (simp_all add: Let_def o_def count_mask centres_within_def)
qed

lemma assign_loop_fails:
  assumes "\<forall>j<length (good @ r # rest). ref_coords ! (i + j) = (good @ r # rest) ! j"
      and "\<forall>g\<in>set good. length (centres_within L box cutoff e_coords g) = 4"
      and "length (centres_within L box cutoff e_coords r) \<noteq> 4"
      and "case fws of None \<Rightarrow> True | Some f \<Rightarrow> length f = length e_coords"
  shows "assign_loop L box cutoff fws ref_coords e_coords
             (enumerate i (map (\<lambda>r. map (pbc_distance L box r) e_coords) (good @ r # rest)))
             ad ws ml ext
           = Inl (ValueError (WannierCount (i + length good)
                                (length (centres_within L box cutoff e_coords r))))"
  using assms
proof (induction good arbitrary: i ad ws ml ext)
  case Nil
  then show ?case by (simp add: Let_def o_def count_mask centres_within_def)
next
  case (Cons g good)
  have shift: "\<forall>j<length (good @ r # rest). ref_coords ! (Suc i + j) = (good @ r # rest) ! j"
    using Cons.prems(1) by (auto dest: spec [of _ "Suc j" for j])
  have four: "length (centres_within L box cutoff e_coords g) = 4"
    using Cons.prems(2) by simp
  have rest: "\<forall>g\<in>set good. length (centres_within L box cutoff e_coords g) = 4"
    using Cons.prems(2) by simp
  note IH = Cons.IH [OF shift rest Cons.prems(3) Cons.prems(4)]
  show ?case
    using four Cons.prems(4) IH
    by (cases fws) (simp_all add: Let_def o_def count_mask centres_within_def)
qed

lemma py_index_nat:
  "py_index xs (int i) = (if i < length xs then Inr (xs ! i) else Inl IndexError)"
  by (simp add: py_index_def)

lemma np_take_nat:
  "np_take xs (map int ids)
     = (if \<forall>i\<in>set ids. i < length xs then Inr (map ((!) xs) ids) else Inl IndexError)"
  by (induction ids) (auto simp: py_index_nat)

lemma length_ids_within:
  "length (ids_within L box cutoff e_coords r) = length (centres_within L box cutoff e_coords r)"
proof -
  let ?P = "\<lambda>e. pbc_distance L box r e < cutoff"
  have "filter ?P e_coords = filter ?P (map ((!) e_coords) [0..<length e_coords])"
    by (simp add: map_nth)
  also have "\<dots> = map ((!) e_coords) (filter (\<lambda>j. ?P (e_coords ! j)) [0..<length e_coords])"
    by (simp add: filter_map o_def)
  finally show ?thesis
    by (simp add: ids_within_def centres_within_def)
qed

lemma length_matched_ids:
  "\<forall>r\<in>set refs. length (centres_within L box cutoff e_coords r) = 4
   \<Longrightarrow> length (matched_ids L box cutoff e_coords refs) = length refs * 4"
  by (induction refs) (simp_all add: matched_ids_def length_ids_within)

lemma remdups_length_distinct: "(length (remdups xs) = length xs) = distinct xs"
  by (metis distinct_remdups length_remdups_eq remdups_id_iff_distinct)

lemma np_select_spread:
  "np_select (map (\<lambda>e. pbc_distance L box r e < cutoff) e_coords) fws
     = atom_spread L box cutoff e_coords fws r"
  by (simp add: np_select_def atom_spread_def zip_map1 filter_map o_def split_def)

lemma get_atomic_dipole_unfold:
  assumes "data_cells dp = [c]"
      and "\<forall>i\<in>set sel_ids. i < length (concat (data_coords dp))"
      and "spread_fits sf (positions wannier_atoms)"
  shows "get_atomic_dipole L dp sel_ids wannier_atoms cutoff sf
     = ebind (assign_loop L (cell_to_cellpar L c) cutoff (map_option (map snd) sf)
                (map ((!) (concat (data_coords dp))) sel_ids) (positions wannier_atoms)
                (enumerate 0 (map (\<lambda>r. map (pbc_distance L (cell_to_cellpar L c) r)
                                         (positions wannier_atoms))
                               (map ((!) (concat (data_coords dp))) sel_ids)))
                [] [] [] (concat (data_coords dp)))
         (\<lambda>(atomic_dipole, wannier_spread, mlwc_ids, extended_coords').
             if length (remdups (concat mlwc_ids)) \<noteq> length sel_ids * 4
               then Inl AssertionError
             else if length atomic_dipole \<noteq> length sel_ids then Inl AssertionError
             else Inr (atomic_dipole, extended_coords', wannier_spread))"
  using assms
  by (cases sf)
     (simp_all add: get_atomic_dipole_def ebind_def np_take_nat distance_array_def Let_def
        spread_fits_def)

lemma get_atomic_dipole_bad:
  assumes "data_cells dp = [c]"
      and "\<forall>i\<in>set sel_ids. i < length (concat (data_coords dp))"
      and "spread_fits sf (positions wannier_atoms)"
      and "map ((!) (concat (data_coords dp))) sel_ids = good @ r # rest"
      and "\<forall>g\<in>set good. length (centres_within L (cell_to_cellpar L c) cutoff
                                   (positions wannier_atoms) g) = 4"
      and "length (centres_within L (cell_to_cellpar L c) cutoff (positions wannier_atoms) r) \<noteq> 4"
  shows "get_atomic_dipole L dp sel_ids wannier_atoms cutoff sf
     = Inl (ValueError (WannierCount (length good)
              (length (centres_within L (cell_to_cellpar L c) cutoff (positions wannier_atoms) r))))"
proof -
  have fws: "case map_option (map snd) sf of None \<Rightarrow> True
             | Some f \<Rightarrow> length f = length (positions wannier_atoms)"
    using assms(3) by (cases sf) (simp_all add: spread_fits_def)
  have "assign_loop L (cell_to_cellpar L c) cutoff (map_option (map snd) sf)
          (good @ r # rest) (positions wannier_atoms)
          (enumerate 0 (map (\<lambda>r. map (pbc_distance L (cell_to_cellpar L c) r)
                                   (positions wannier_atoms)) (good @ r # rest)))
          [] [] [] (concat (data_coords dp))
        = Inl (ValueError (WannierCount (0 + length good)
              (length (centres_within L (cell_to_cellpar L c) cutoff (positions wannier_atoms) r))))"
    by (rule assign_loop_fails) (use assms(5,6) fws in simp_all)
  then show ?thesis
    unfolding get_atomic_dipole_unfold [OF assms(1,2,3)] assms(4) by (simp add: ebind_def)
qed

lemma get_atomic_dipole_all4:
  assumes "data_cells dp = [c]"
      and "\<forall>i\<in>set sel_ids. i < length (concat (data_coords dp))"
      and "spread_fits sf (positions wannier_atoms)"
      and "\<forall>r\<in>set (map ((!) (concat (data_coords dp))) sel_ids).
             length (centres_within L (cell_to_cellpar L c) cutoff (positions wannier_atoms) r) = 4"
  shows "get_atomic_dipole L dp sel_ids wannier_atoms cutoff sf
     = (if distinct (matched_ids L (cell_to_cellpar L c) cutoff (positions wannier_atoms)
                       (map ((!) (concat (data_coords dp))) sel_ids))
        then Inr (map (mean_image L (cell_to_cellpar L c) cutoff (positions wannier_atoms))
                    (map ((!) (concat (data_coords dp))) sel_ids),
                  concat (data_coords dp)
                    @ map (\<lambda>r. vadd (mean_image L (cell_to_cellpar L c) cutoff
                                        (positions wannier_atoms) r) r)
                        (map ((!) (concat (data_coords dp))) sel_ids),
                  case sf of None \<Rightarrow> []
                  | Some rows \<Rightarrow>
                      map (atom_spread L (cell_to_cellpar L c) cutoff (positions wannier_atoms)
                             (map snd rows))
                        (map ((!) (concat (data_coords dp))) sel_ids))
        else Inl AssertionError)"
proof -
  let ?box = "cell_to_cellpar L c"
  let ?e = "positions wannier_atoms"
  let ?refs = "map ((!) (concat (data_coords dp))) sel_ids"
  let ?loop = "assign_loop L ?box cutoff (map_option (map snd) sf) ?refs ?e
          (enumerate 0 (map (\<lambda>r. map (pbc_distance L ?box r) ?e) ?refs))
          [] [] [] (concat (data_coords dp))"
  have fws: "case map_option (map snd) sf of None \<Rightarrow> True | Some f \<Rightarrow> length f = length ?e"
    using assms(3) by (cases sf) (simp_all add: spread_fits_def)
  have idx: "\<forall>j<length ?refs. ?refs ! (0 + j) = ?refs ! j" by simp
  obtain ad ws ml ext where run: "?loop = Inr (ad, ws, ml, ext)"
    using assign_loop_total [OF idx assms(4) fws, of "[]" "[]" "[]" "concat (data_coords dp)"]
    by (metis prod_cases4)
  from assign_loop_Inr [OF idx run]
  have ad: "ad = map (mean_image L ?box cutoff ?e) ?refs"
    and ml: "ml = map (ids_within L ?box cutoff ?e) ?refs"
    and ext: "ext = concat (data_coords dp) @ map (\<lambda>r. vadd (mean_image L ?box cutoff ?e r) r) ?refs"
    and ws: "ws = (case map_option (map snd) sf of None \<Rightarrow> []
                   | Some f \<Rightarrow> map (\<lambda>r. np_select (map (\<lambda>e. pbc_distance L ?box r e < cutoff) ?e) f) ?refs)"
    by simp_all
  have ws': "ws = (case sf of None \<Rightarrow> []
                   | Some rows \<Rightarrow> map (atom_spread L ?box cutoff ?e (map snd rows)) ?refs)"
    unfolding ws by (cases sf) (simp_all add: np_select_spread)
  have len: "length (concat ml) = length sel_ids * 4"
    using length_matched_ids [OF assms(4)] by (simp add: ml matched_ids_def)
  have "(length (remdups (concat ml)) = length sel_ids * 4) = distinct (concat ml)"
    using remdups_length_distinct [of "concat ml"] len by simp
  then show ?thesis
    unfolding get_atomic_dipole_unfold [OF assms(1,2,3)] run
    by (simp add: ebind_def ad ext ws' ml matched_ids_def)
qed

lemma get_atomic_dipole_Inr:
  assumes "get_atomic_dipole L dp sel_ids wannier_atoms cutoff sf = Inr (atomic_dipole, ext, ws)"
  shows "\<exists>c. data_cells dp = [c]
       \<and> (\<forall>i\<in>set sel_ids. i < length (concat (data_coords dp)))
       \<and> atomic_dipole = map (mean_image L (cell_to_cellpar L c) cutoff (positions wannier_atoms))
                            (map ((!) (concat (data_coords dp))) sel_ids)
       \<and> (\<forall>r\<in>set (map ((!) (concat (data_coords dp))) sel_ids).
             length (centres_within L (cell_to_cellpar L c) cutoff (positions wannier_atoms) r) = 4)
       \<and> distinct (matched_ids L (cell_to_cellpar L c) cutoff (positions wannier_atoms)
                     (map ((!) (concat (data_coords dp))) sel_ids))"
proof -
  from assms obtain c where c: "data_cells dp = [c]"
    by (auto simp: get_atomic_dipole_def ebind_def Let_def split: list.splits)
  let ?box = "cell_to_cellpar L c"
  let ?e = "positions wannier_atoms"
  let ?refs = "map ((!) (concat (data_coords dp))) sel_ids"
  from assms c have rng: "\<forall>i\<in>set sel_ids. i < length (concat (data_coords dp))"
    by (auto simp: get_atomic_dipole_def ebind_def Let_def np_take_nat
             split: option.splits if_splits sum.splits)
  from assms c rng obtain fws ad' ws' ml' ext' where
    run: "assign_loop L ?box cutoff fws ?refs ?e
            (enumerate 0 (map (\<lambda>r. map (pbc_distance L ?box r) ?e) ?refs))
            [] [] [] (concat (data_coords dp)) = Inr (ad', ws', ml', ext')"
    and chk: "length (remdups (concat ml')) = length sel_ids * 4" and res: "atomic_dipole = ad'"
    by (auto simp: get_atomic_dipole_def ebind_def Let_def np_take_nat distance_array_def
             split: option.splits if_splits sum.splits)
  have idx: "\<forall>j<length ?refs. ?refs ! (0 + j) = ?refs ! j" by simp
  from assign_loop_Inr [OF idx run]
  have ad: "ad' = map (mean_image L ?box cutoff ?e) ?refs"
    and ml: "ml' = map (ids_within L ?box cutoff ?e) ?refs"
    and four: "\<forall>r\<in>set ?refs. length (centres_within L ?box cutoff ?e r) = 4"
    by simp_all
  have len: "length (concat ml') = length sel_ids * 4"
    using length_matched_ids [OF four] by (simp add: ml matched_ids_def)
  have "distinct (concat ml')"
    using remdups_length_distinct [of "concat ml'"] len chk by simp
  with c rng ad four res show ?thesis
    by (auto simp: ml matched_ids_def)
qed

lemma list_of_length_4: "length xs = 4 \<Longrightarrow> \<exists>a b c d. xs = [a, b, c, d]"
  by (auto simp: eval_nat_numeral length_Suc_conv)

lemma vec_mean4: "vec_mean [a, b, c, d] = vscale (1/4) (vadd (vadd (vadd a b) c) d)"
  by (cases a; cases b; cases c; cases d) (simp add: vec_mean_def)

section \<open>The atomic dipole\<close>

text \<open>
  Claim C1. When the assignor returns for a frame, there is one dipole per selected atom,
  and the dipole of the k-th selected atom is a quarter of the sum of four vectors: the
  minimum images of the displacements from the atom to the four centres that lie within
  the cutoff of it.
\<close>

theorem atomic_dipole_is_mean:
  assumes "get_atomic_dipole L dp sel_ids wannier_atoms cutoff sf = Inr (atomic_dipole, ext, ws)"
      and "k < length sel_ids"
  shows "\<exists>c c1 c2 c3 c4.
           data_cells dp = [c]
         \<and> length atomic_dipole = length sel_ids
         \<and> centres_within L (cell_to_cellpar L c) cutoff (positions wannier_atoms)
               (concat (data_coords dp) ! (sel_ids ! k)) = [c1, c2, c3, c4]
         \<and> atomic_dipole ! k = vscale (1/4)
             (vadd (vadd (vadd
                (minimize_vector L (cell_to_cellpar L c) (vsub c1 (concat (data_coords dp) ! (sel_ids ! k))))
                (minimize_vector L (cell_to_cellpar L c) (vsub c2 (concat (data_coords dp) ! (sel_ids ! k)))))
                (minimize_vector L (cell_to_cellpar L c) (vsub c3 (concat (data_coords dp) ! (sel_ids ! k)))))
                (minimize_vector L (cell_to_cellpar L c) (vsub c4 (concat (data_coords dp) ! (sel_ids ! k)))))"
proof -
  let ?r = "concat (data_coords dp) ! (sel_ids ! k)"
  from get_atomic_dipole_Inr [OF assms(1)] obtain c where c: "data_cells dp = [c]"
    and ad: "atomic_dipole = map (mean_image L (cell_to_cellpar L c) cutoff (positions wannier_atoms))
                            (map ((!) (concat (data_coords dp))) sel_ids)"
    and four: "\<forall>r\<in>set (map ((!) (concat (data_coords dp))) sel_ids).
             length (centres_within L (cell_to_cellpar L c) cutoff (positions wannier_atoms) r) = 4"
    by blast
  have "?r \<in> set (map ((!) (concat (data_coords dp))) sel_ids)"
    using assms(2) by simp
  with four have "length (centres_within L (cell_to_cellpar L c) cutoff (positions wannier_atoms) ?r) = 4"
    by blast
  then obtain c1 c2 c3 c4 where cs:
    "centres_within L (cell_to_cellpar L c) cutoff (positions wannier_atoms) ?r = [c1, c2, c3, c4]"
    using list_of_length_4 by blast
  have "atomic_dipole ! k = mean_image L (cell_to_cellpar L c) cutoff (positions wannier_atoms) ?r"
    using assms(2) by (simp add: ad)
  also have "\<dots> = vec_mean (map (\<lambda>e. minimize_vector L (cell_to_cellpar L c) (vsub e ?r)) [c1, c2, c3, c4])"
    by (simp only: mean_image_def cs)
  finally have fin: "atomic_dipole ! k = vscale (1/4)
             (vadd (vadd (vadd
                (minimize_vector L (cell_to_cellpar L c) (vsub c1 ?r))
                (minimize_vector L (cell_to_cellpar L c) (vsub c2 ?r)))
                (minimize_vector L (cell_to_cellpar L c) (vsub c3 ?r)))
                (minimize_vector L (cell_to_cellpar L c) (vsub c4 ?r)))"
    by (simp add: vec_mean4)
  have len: "length atomic_dipole = length sel_ids"
    by (simp add: ad)
  from c len cs fin show ?thesis by blast
qed

lemma frame_ok_run:
  "get_atomic_dipole box_geometry frame_ok [0, 2] centres_ok 1 None
     = Inr ([(0, 1/8, 1/8), (0, 1/8, - (1/8))],
            [(0, 0, 0), (1, 1, 0), (5, 5, 5), (0, 1/8, 1/8), (5, 41/8, 39/8)], [])"
  by (simp add: get_atomic_dipole_def frame_ok_def centres_ok_def cell10_def box_geometry_def
        wrap_def round_def distance_array_def minimize_vectors_def vec_mean_def np_select_def
        np_where_def ebind_def py_index_def Let_def)

theorem atomic_dipole_is_mean_witness:
  "get_atomic_dipole box_geometry frame_ok [0, 2] centres_ok 1 None
     = Inr ([(0, 1/8, 1/8), (0, 1/8, - (1/8))],
            [(0, 0, 0), (1, 1, 0), (5, 5, 5), (0, 1/8, 1/8), (5, 41/8, 39/8)], [])
   \<and> (\<exists>c c1 c2 c3 c4.
           data_cells frame_ok = [c]
         \<and> length [(0, 1/8, 1/8), (0, 1/8, - (1/8)) :: vec3] = length [0, 2 :: nat]
         \<and> centres_within box_geometry (cell_to_cellpar box_geometry c) 1 (positions centres_ok)
               (concat (data_coords frame_ok) ! ([0, 2] ! 1)) = [c1, c2, c3, c4]
         \<and> [(0, 1/8, 1/8), (0, 1/8, - (1/8))] ! 1 = vscale (1/4)
             (vadd (vadd (vadd
                (minimize_vector box_geometry (cell_to_cellpar box_geometry c)
                   (vsub c1 (concat (data_coords frame_ok) ! ([0, 2] ! 1))))
                (minimize_vector box_geometry (cell_to_cellpar box_geometry c)
                   (vsub c2 (concat (data_coords frame_ok) ! ([0, 2] ! 1)))))
                (minimize_vector box_geometry (cell_to_cellpar box_geometry c)
                   (vsub c3 (concat (data_coords frame_ok) ! ([0, 2] ! 1)))))
                (minimize_vector box_geometry (cell_to_cellpar box_geometry c)
                   (vsub c4 (concat (data_coords frame_ok) ! ([0, 2] ! 1))))))"
proof -
  have k: "(1::nat) < length [0, 2 :: nat]" by simp
  from atomic_dipole_is_mean [OF frame_ok_run k] frame_ok_run show ?thesis by blast
qed

section \<open>Failures of the assignment\<close>

lemma get_atomic_dipole_first_bad:
  assumes "data_cells dp = [c]"
      and "\<forall>i\<in>set sel_ids. i < length (concat (data_coords dp))"
      and "spread_fits sf (positions wannier_atoms)"
      and "k < length sel_ids"
      and "length (centres_within L (cell_to_cellpar L c) cutoff (positions wannier_atoms)
                     (concat (data_coords dp) ! (sel_ids ! k))) \<noteq> 4"
  shows "\<exists>ii cn. ii \<le> k \<and> cn \<noteq> 4
           \<and> cn = length (centres_within L (cell_to_cellpar L c) cutoff (positions wannier_atoms)
                            (concat (data_coords dp) ! (sel_ids ! ii)))
           \<and> get_atomic_dipole L dp sel_ids wannier_atoms cutoff sf
               = Inl (ValueError (WannierCount ii cn))"
proof -
  let ?refs = "map ((!) (concat (data_coords dp))) sel_ids"
  let ?n = "\<lambda>r. length (centres_within L (cell_to_cellpar L c) cutoff (positions wannier_atoms) r)"
  have "?refs ! k \<in> set ?refs" using assms(4) by (intro nth_mem) simp
  moreover have "?n (?refs ! k) \<noteq> 4" using assms(4,5) by simp
  ultimately have "\<exists>r\<in>set ?refs. ?n r \<noteq> 4" by blast
  then obtain good r rest where split: "?refs = good @ r # rest" and bad: "?n r \<noteq> 4"
    and good: "\<forall>g\<in>set good. \<not> ?n g \<noteq> 4"
    using split_list_first_prop [of ?refs "\<lambda>r. ?n r \<noteq> 4"] by blast
  have lt: "length good < length sel_ids"
    using arg_cong [OF split, of length] by simp
  have r: "r = concat (data_coords dp) ! (sel_ids ! length good)"
    using arg_cong [OF split, of "\<lambda>xs. xs ! length good"] lt by simp
  have le: "length good \<le> k"
  proof (rule ccontr)
    assume "\<not> length good \<le> k"
    then have "k < length good" by simp
    then have "?refs ! k \<in> set good" by (simp add: split nth_append)
    with good \<open>?n (?refs ! k) \<noteq> 4\<close> show False by blast
  qed
  have "get_atomic_dipole L dp sel_ids wannier_atoms cutoff sf
      = Inl (ValueError (WannierCount (length good) (?n r)))"
    using good by (intro get_atomic_dipole_bad [OF assms(1,2,3) split _ bad]) simp
  with le bad r show ?thesis by blast
qed

lemma card_matched:
  assumes "\<forall>r\<in>set refs. length (centres_within L box cutoff e_coords r) = 4"
  shows "(card (set (matched_ids L box cutoff e_coords refs)) < 4 * length refs)
           = (\<not> distinct (matched_ids L box cutoff e_coords refs))"
proof -
  let ?M = "matched_ids L box cutoff e_coords refs"
  have len: "length ?M = length refs * 4" by (rule length_matched_ids [OF assms])
  have "card (set ?M) \<le> length ?M" by (rule card_length)
  moreover have "(card (set ?M) = length ?M) = distinct ?M"
    by (auto simp: distinct_card card_distinct)
  ultimately show ?thesis using len by auto
qed

lemma set_dplr_ext_unfold:
  assumes "length (data_cells dp) = 1"
      and "get_sel_ids dp type_map sel_type = Inr sel_ids"
  shows "set_dplr_ext_from_cp2k_output L dp wannier_file type_map sel_type cutoff sf
     = ebind (get_atomic_dipole L dp sel_ids
                (atoms_mask (map (\<lambda>s. s = ''X'') (symbols wannier_file)) wannier_file) cutoff sf)
         (\<lambda>(atomic_dipole, extended_coords, wannier_spread).
            if length wannier_spread > 0
            then Inr (dp\<lparr>data_atomic_dipole :=
                          Some [scatter (replicate (length (data_atom_types dp)) (0, 0, 0))
                                  sel_ids atomic_dipole],
                        data_wannier_spread :=
                          Some [scatter (replicate (length (data_atom_types dp)) [0, 0, 0, 0])
                                  sel_ids wannier_spread]\<rparr>)
            else Inr (dp\<lparr>data_atomic_dipole :=
                          Some [scatter (replicate (length (data_atom_types dp)) (0, 0, 0))
                                  sel_ids atomic_dipole]\<rparr>))"
  using assms
  by (simp add: set_dplr_ext_from_cp2k_output_def ebind_def Let_def split: sum.splits prod.splits)

text \<open>
  Claim C2. On a frame whose data fit together (one cell, selected indices within the
  coordinates, one spread value per centre if a spread file is given), when the number of
  centres within the cutoff of some selected atom is not 4, the assignor raises the
  ValueError of the cardinality check, for the first selected atom whose count is not 4
  and with that count. It returns nothing.
\<close>

theorem cardinality_violation_raises:
  assumes "data_cells dp = [c]"
      and "\<forall>i\<in>set sel_ids. i < length (concat (data_coords dp))"
      and "spread_fits sf (positions wannier_atoms)"
      and "k < length sel_ids"
      and "length (centres_within L (cell_to_cellpar L c) cutoff (positions wannier_atoms)
                     (concat (data_coords dp) ! (sel_ids ! k))) \<noteq> 4"
  shows "\<exists>ii cn. ii \<le> k \<and> cn \<noteq> 4
           \<and> cn = length (centres_within L (cell_to_cellpar L c) cutoff (positions wannier_atoms)
                            (concat (data_coords dp) ! (sel_ids ! ii)))
           \<and> get_atomic_dipole L dp sel_ids wannier_atoms cutoff sf
               = Inl (ValueError (WannierCount ii cn))"
  using assms by (rule get_atomic_dipole_first_bad)

lemmas box_eval = box_geometry_def wrap_def round_def centres_within_def ids_within_def
  matched_ids_def cell10_def spread_fits_def

theorem cardinality_violation_raises_witness:
  "data_cells frame_ok = [cell10]
   \<and> (1::nat) < length [0, 2 :: nat]
   \<and> length (centres_within box_geometry (cell_to_cellpar box_geometry cell10) 1
               (positions centres_short) (concat (data_coords frame_ok) ! ([0, 2] ! 1))) = 3
   \<and> get_atomic_dipole box_geometry frame_ok [0, 2] centres_short 1 (Some spread_short)
       = Inl (ValueError (WannierCount 1 3))"
proof -
  have c: "data_cells frame_ok = [cell10]" by (simp add: frame_ok_def)
  have rng: "\<forall>i\<in>set [0, 2 :: nat]. i < length (concat (data_coords frame_ok))"
    by (simp add: frame_ok_def)
  have fit: "spread_fits (Some spread_short) (positions centres_short)"
    by (simp add: spread_fits_def spread_short_def centres_short_def)
  have k: "(1::nat) < length [0, 2 :: nat]" by simp
  have n0: "length (centres_within box_geometry (cell_to_cellpar box_geometry cell10) 1
               (positions centres_short) (concat (data_coords frame_ok) ! ([0, 2] ! 0))) = 4"
    by (simp add: box_eval frame_ok_def centres_short_def)
  have n1: "length (centres_within box_geometry (cell_to_cellpar box_geometry cell10) 1
               (positions centres_short) (concat (data_coords frame_ok) ! ([0, 2] ! 1))) = 3"
    by (simp add: box_eval frame_ok_def centres_short_def)
  then have bad: "length (centres_within box_geometry (cell_to_cellpar box_geometry cell10) 1
               (positions centres_short) (concat (data_coords frame_ok) ! ([0, 2] ! 1))) \<noteq> 4"
    by simp
  from cardinality_violation_raises [OF c rng fit k bad] obtain ii cn where
    ii: "ii \<le> 1" and cn: "cn \<noteq> 4"
    and eq: "cn = length (centres_within box_geometry (cell_to_cellpar box_geometry cell10) 1
               (positions centres_short) (concat (data_coords frame_ok) ! ([0, 2] ! ii)))"
    and res: "get_atomic_dipole box_geometry frame_ok [0, 2] centres_short 1 (Some spread_short)
               = Inl (ValueError (WannierCount ii cn))"
    by blast
  from ii have "ii = 0 \<or> ii = 1" by auto
  with cn eq n0 have "ii = 1" by auto
  with eq n1 res c k show ?thesis by simp
qed

text \<open>
  Claim C3. On a frame whose data fit together and on which every selected atom has exactly
  four centres within the cutoff, the assignor raises the AssertionError of the
  double-counting check when the matched centre indices of all selected atoms hold fewer
  than 4 times the number of selected atoms distinct values, which is when some index
  occurs twice among them; otherwise it returns.
\<close>

theorem duplicate_assignment_raises:
  assumes "data_cells dp = [c]"
      and "\<forall>i\<in>set sel_ids. i < length (concat (data_coords dp))"
      and "spread_fits sf (positions wannier_atoms)"
      and "\<forall>i\<in>set sel_ids.
             length (centres_within L (cell_to_cellpar L c) cutoff (positions wannier_atoms)
                       (concat (data_coords dp) ! i)) = 4"
  shows "(if card (set (matched_ids L (cell_to_cellpar L c) cutoff (positions wannier_atoms)
                          (map ((!) (concat (data_coords dp))) sel_ids))) < 4 * length sel_ids
          then get_atomic_dipole L dp sel_ids wannier_atoms cutoff sf = Inl AssertionError
          else (\<exists>res. get_atomic_dipole L dp sel_ids wannier_atoms cutoff sf = Inr res))
       \<and> (card (set (matched_ids L (cell_to_cellpar L c) cutoff (positions wannier_atoms)
                          (map ((!) (concat (data_coords dp))) sel_ids))) < 4 * length sel_ids)
           = (\<not> distinct (matched_ids L (cell_to_cellpar L c) cutoff (positions wannier_atoms)
                          (map ((!) (concat (data_coords dp))) sel_ids)))"
proof -
  let ?refs = "map ((!) (concat (data_coords dp))) sel_ids"
  have four: "\<forall>r\<in>set ?refs. length (centres_within L (cell_to_cellpar L c) cutoff
                                       (positions wannier_atoms) r) = 4"
    using assms(4) by simp
  from card_matched [OF four] get_atomic_dipole_all4 [OF assms(1,2,3) four]
  show ?thesis by simp
qed

theorem duplicate_assignment_raises_witness:
  "data_cells frame_shared = [cell10]
   \<and> matched_ids box_geometry (cell_to_cellpar box_geometry cell10) 1 (positions centres_shared)
        (map ((!) (concat (data_coords frame_shared))) [0, 1]) = [0, 1, 2, 3, 0, 4, 5, 6]
   \<and> get_atomic_dipole box_geometry frame_shared [0, 1] centres_shared 1 None = Inl AssertionError"
proof -
  have c: "data_cells frame_shared = [cell10]" by (simp add: frame_shared_def)
  have rng: "\<forall>i\<in>set [0, 1 :: nat]. i < length (concat (data_coords frame_shared))"
    by (simp add: frame_shared_def)
  have fit: "spread_fits None (positions centres_shared)"
    by (simp add: spread_fits_def)
  have four: "\<forall>i\<in>set [0, 1 :: nat].
      length (centres_within box_geometry (cell_to_cellpar box_geometry cell10) 1
                (positions centres_shared) (concat (data_coords frame_shared) ! i)) = 4"
    by (simp add: box_eval frame_shared_def centres_shared_def)
  have m: "matched_ids box_geometry (cell_to_cellpar box_geometry cell10) 1 (positions centres_shared)
        (map ((!) (concat (data_coords frame_shared))) [0, 1]) = [0, 1, 2, 3, 0, 4, 5, 6]"
    by (simp add: box_eval frame_shared_def centres_shared_def)
  have lt: "card (set (matched_ids box_geometry (cell_to_cellpar box_geometry cell10) 1
        (positions centres_shared) (map ((!) (concat (data_coords frame_shared))) [0, 1])))
      < 4 * length [0, 1 :: nat]"
    unfolding m by (simp add: card_insert_if)
  from conjunct1 [OF duplicate_assignment_raises [OF c rng fit four]] lt
  have "get_atomic_dipole box_geometry frame_shared [0, 1] centres_shared 1 None
      = Inl AssertionError"
    by (simp only: if_True)
  with c m show ?thesis by (intro conjI)
qed

section \<open>The loader\<close>

lemmas run_eval = get_atomic_dipole_def set_dplr_ext_from_cp2k_output_def
  dpdata_read_cp2k_dplr_data_def get_sel_ids_def atoms_mask_def isin_where_def
  box_geometry_def wrap_def round_def distance_array_def minimize_vectors_def vec_mean_def
  np_select_def np_where_def ebind_def py_index_def cell10_def Let_def

text \<open>
  Claim C4, as it stands, fails: on the frame where two oxygen atoms share a centre the
  assignment fails on the double-counting check, and the loader raises the AssertionError
  instead of returning \<open>None\<close>.
\<close>

theorem loader_duplicate_counterexample:
  "get_atomic_dipole box_geometry frame_shared [0, 1]
      (atoms_mask (map (\<lambda>s. s = ''X'') (symbols wannier_shared)) wannier_shared) 1 None
     = Inl AssertionError
   \<and> dpdata_read_cp2k_dplr_data box_geometry frame_shared wannier_shared [''O'', ''H''] [0] 1 None
     = Inl AssertionError
   \<and> dpdata_read_cp2k_dplr_data box_geometry frame_shared wannier_shared [''O'', ''H''] [0] 1 None
     \<noteq> Inr None"
  by (simp add: run_eval frame_shared_def wannier_shared_def)

text \<open>
  Claim C4, amended. On a frame of one cell whose selection resolves, when the assignment
  fails, the loader returns \<open>None\<close> if the failure is a ValueError, which the violation of
  the cardinality check is, and raises the same exception otherwise, which is what happens
  to the AssertionError of the double-counting check.
\<close>

theorem loader_on_assignment_failure:
  assumes "length (data_cells dp) = 1"
      and "get_sel_ids dp type_map sel_type = Inr sel_ids"
      and "get_atomic_dipole L dp sel_ids
             (atoms_mask (map (\<lambda>s. s = ''X'') (symbols wannier_file)) wannier_file) cutoff sf
           = Inl e"
  shows "dpdata_read_cp2k_dplr_data L dp wannier_file type_map sel_type cutoff sf
       = (case e of ValueError v \<Rightarrow> Inr None | _ \<Rightarrow> Inl e)"
  unfolding dpdata_read_cp2k_dplr_data_def set_dplr_ext_unfold [OF assms(1,2)] assms(3)
  by (cases e) (simp_all add: ebind_def)

theorem loader_on_assignment_failure_witness:
  "length (data_cells frame_ok) = 1
   \<and> get_sel_ids frame_ok [''O'', ''H''] [0] = Inr [0, 2]
   \<and> get_atomic_dipole box_geometry frame_ok [0, 2]
        (atoms_mask (map (\<lambda>s. s = ''X'') (symbols wannier_short)) wannier_short) 1 None
      = Inl (ValueError (WannierCount 1 3))
   \<and> dpdata_read_cp2k_dplr_data box_geometry frame_ok wannier_short [''O'', ''H''] [0] 1 None
      = Inr None"
proof -
  have one: "length (data_cells frame_ok) = 1" by (simp add: frame_ok_def)
  have sel: "get_sel_ids frame_ok [''O'', ''H''] [0] = Inr [0, 2]"
    by (simp add: get_sel_ids_def frame_ok_def ebind_def py_index_def isin_where_def)
  have bad: "get_atomic_dipole box_geometry frame_ok [0, 2]
        (atoms_mask (map (\<lambda>s. s = ''X'') (symbols wannier_short)) wannier_short) 1 None
      = Inl (ValueError (WannierCount 1 3))"
    by (simp add: run_eval frame_ok_def wannier_short_def)
  from loader_on_assignment_failure [OF one sel bad] one sel bad show ?thesis by simp
qed

section \<open>The scatter into the full arrays\<close>

lemma scatter_Cons: "scatter full (i # ids) (v # vals) = scatter (full[i := v]) ids vals"
  by (simp add: scatter_def)

lemma scatter_Nil: "scatter full [] vals = full" "scatter full ids [] = full"
  by (simp_all add: scatter_def)

lemma length_scatter: "length (scatter full ids vals) = length full"
proof (induction ids arbitrary: full vals)
  case Nil
  then show ?case by (simp add: scatter_Nil)
next
  case (Cons i ids)
  then show ?case by (cases vals) (simp_all add: scatter_Nil scatter_Cons)
qed

lemma scatter_outside: "i \<notin> set ids \<Longrightarrow> scatter full ids vals ! i = full ! i"
proof (induction ids arbitrary: full vals)
  case Nil
  then show ?case by (simp add: scatter_Nil)
next
  case (Cons j ids)
  then show ?case by (cases vals) (simp_all add: scatter_Nil scatter_Cons)
qed

lemma scatter_inside:
  "distinct ids \<Longrightarrow> length vals = length ids \<Longrightarrow> \<forall>i\<in>set ids. i < length full
   \<Longrightarrow> k < length ids \<Longrightarrow> scatter full ids vals ! (ids ! k) = vals ! k"
proof (induction ids arbitrary: full vals k)
  case Nil
  then show ?case by simp
next
  case (Cons j ids)
  then obtain v vs where vals: "vals = v # vs" by (cases vals) auto
  show ?case
  proof (cases k)
    case 0
    with Cons.prems vals show ?thesis
      by (simp add: scatter_Cons scatter_outside)
  next
    case (Suc k')
    with Cons.prems vals Cons.IH [of vs "full[j := v]" k'] show ?thesis
      by (simp add: scatter_Cons)
  qed
qed

lemma np_take_length: "np_take xs ids = Inr ys \<Longrightarrow> length ys = length ids"
  by (induction ids arbitrary: ys) (auto split: sum.splits)

lemma get_sel_ids_Inr:
  assumes "get_sel_ids dp type_map sel_type = Inr sel_ids"
  shows "distinct sel_ids \<and> (\<forall>i\<in>set sel_ids. i < length (data_atom_types dp))"
proof -
  from assms obtain syms sel where syms: "np_take (data_atom_names dp) (data_atom_types dp) = Inr syms"
    and sel_ids: "sel_ids = isin_where syms sel"
    by (auto simp: get_sel_ids_def ebind_def split: sum.splits)
  have "length syms = length (data_atom_types dp)" by (rule np_take_length [OF syms])
  then show ?thesis by (auto simp: sel_ids isin_where_def)
qed

lemma length_atom_spread:
  assumes "length fws = length e_coords"
  shows "length (atom_spread L box cutoff e_coords fws r)
       = length (centres_within L box cutoff e_coords r)"
proof -
  let ?P = "\<lambda>e. pbc_distance L box r e < cutoff"
  have "filter ?P e_coords = filter ?P (map fst (zip e_coords fws))"
    using assms by simp
  also have "\<dots> = map fst (filter (\<lambda>(e, s). ?P e) (zip e_coords fws))"
    by (simp add: filter_map o_def split_def)
  finally show ?thesis by (simp add: atom_spread_def centres_within_def)
qed

section \<open>The full arrays of a valid frame\<close>

text \<open>
  Claim C5. On a valid frame (one cell, as many coordinates as atom types, a selection
  that resolves, one spread value per centre if a spread file is given, exactly four
  centres within the cutoff of every selected atom and no centre matched twice) the
  assignor returns one dipole per selected atom, and the system gets a dipole array with
  one row per atom, which is zero at every atom that is not selected and holds the k-th
  dipole at the k-th selected atom. When a spread file is given and an atom is selected,
  the spread array has one row per atom too, which is [0, 0, 0, 0] at every atom that is
  not selected and holds the four spreads of its centres at a selected atom; otherwise the
  spread entry of the system is left as it was.
\<close>

theorem valid_frame_scatter:
  assumes "data_cells dp = [c]"
      and "data_coords dp = [xs]"
      and "length xs = length (data_atom_types dp)"
      and "get_sel_ids dp type_map sel_type = Inr sel_ids"
      and "W = atoms_mask (map (\<lambda>s. s = ''X'') (symbols wannier_file)) wannier_file"
      and "spread_fits sf (positions W)"
      and "\<forall>i\<in>set sel_ids.
             length (centres_within L (cell_to_cellpar L c) cutoff (positions W) (xs ! i)) = 4"
      and "distinct (matched_ids L (cell_to_cellpar L c) cutoff (positions W)
                       (map ((!) xs) sel_ids))"
  shows "\<exists>ad ext ws dp' full.
           get_atomic_dipole L dp sel_ids W cutoff sf = Inr (ad, ext, ws)
         \<and> length ad = length sel_ids
         \<and> set_dplr_ext_from_cp2k_output L dp wannier_file type_map sel_type cutoff sf = Inr dp'
         \<and> data_atomic_dipole dp' = Some [full]
         \<and> length full = length (data_atom_types dp)
         \<and> (\<forall>i<length full. i \<notin> set sel_ids \<longrightarrow> full ! i = (0, 0, 0))
         \<and> (\<forall>k<length sel_ids. full ! (sel_ids ! k) = ad ! k)
         \<and> (if sf = None \<or> sel_ids = []
             then data_wannier_spread dp' = data_wannier_spread dp
             else (\<exists>sfull. data_wannier_spread dp' = Some [sfull]
                    \<and> length sfull = length (data_atom_types dp)
                    \<and> (\<forall>i<length sfull. i \<notin> set sel_ids \<longrightarrow> sfull ! i = [0, 0, 0, 0])
                    \<and> (\<forall>k<length sel_ids. sfull ! (sel_ids ! k) = ws ! k \<and> length (ws ! k) = 4)))"
proof -
  let ?box = "cell_to_cellpar L c"
  let ?e = "positions W"
  let ?n = "length (data_atom_types dp)"
  let ?refs = "map ((!) xs) sel_ids"
  let ?ad = "map (mean_image L ?box cutoff ?e) ?refs"
  let ?ext = "xs @ map (\<lambda>r. vadd (mean_image L ?box cutoff ?e r) r) ?refs"
  let ?ws = "case sf of None \<Rightarrow> []
             | Some rows \<Rightarrow> map (atom_spread L ?box cutoff ?e (map snd rows)) ?refs"
  let ?full = "scatter (replicate ?n (0, 0, 0)) sel_ids ?ad"
  let ?sfull = "scatter (replicate ?n [0, 0, 0, 0]) sel_ids ?ws"
  from get_sel_ids_Inr [OF assms(4)]
  have dist: "distinct sel_ids" and rng: "\<forall>i\<in>set sel_ids. i < ?n" by simp_all
  have coords: "concat (data_coords dp) = xs" by (simp add: assms(2))
  have rng': "\<forall>i\<in>set sel_ids. i < length (concat (data_coords dp))"
    using rng by (simp add: coords assms(3))
  have four: "\<forall>r\<in>set (map ((!) (concat (data_coords dp))) sel_ids).
      length (centres_within L ?box cutoff ?e r) = 4"
    using assms(7) by (simp add: coords)
  have run: "get_atomic_dipole L dp sel_ids W cutoff sf = Inr (?ad, ?ext, ?ws)"
    using get_atomic_dipole_all4 [OF assms(1) rng' assms(6) four] assms(8)
    by (cases sf) (simp_all add: coords)
  have one: "length (data_cells dp) = 1" by (simp add: assms(1))
  have lws: "length ?ws = (if sf = None then 0 else length sel_ids)"
    by (cases sf) simp_all
  define dp' where "dp' = (if sf = None \<or> sel_ids = []
      then dp\<lparr>data_atomic_dipole := Some [?full]\<rparr>
      else dp\<lparr>data_atomic_dipole := Some [?full], data_wannier_spread := Some [?sfull]\<rparr>)"
  have wsnil: "(?ws = []) = (sf = None \<or> sel_ids = [])"
    by (cases sf) simp_all
  have ext: "set_dplr_ext_from_cp2k_output L dp wannier_file type_map sel_type cutoff sf = Inr dp'"
  proof (cases "sf = None \<or> sel_ids = []")
    case True
    then have "?ws = []" using wsnil by simp
    with True show ?thesis
      unfolding set_dplr_ext_unfold [OF one assms(4)] assms(5) [symmetric] run
      by (simp add: ebind_def dp'_def)
  next
    case False
    then have "?ws \<noteq> []" using wsnil by simp
    with False show ?thesis
      unfolding set_dplr_ext_unfold [OF one assms(4)] assms(5) [symmetric] run
      by (auto simp: ebind_def dp'_def)
  qed
  have dip: "data_atomic_dipole dp' = Some [?full]"
    by (simp add: dp'_def)
  have lfull: "length ?full = ?n" by (simp add: length_scatter)
  have zero: "\<forall>i<length ?full. i \<notin> set sel_ids \<longrightarrow> ?full ! i = (0, 0, 0)"
    by (simp add: length_scatter scatter_outside)
  have sel: "\<forall>k<length sel_ids. ?full ! (sel_ids ! k) = ?ad ! k"
    using dist rng by (intro allI impI scatter_inside) simp_all
  have spread: "if sf = None \<or> sel_ids = []
             then data_wannier_spread dp' = data_wannier_spread dp
             else (\<exists>sfull. data_wannier_spread dp' = Some [sfull]
                    \<and> length sfull = ?n
                    \<and> (\<forall>i<length sfull. i \<notin> set sel_ids \<longrightarrow> sfull ! i = [0, 0, 0, 0])
                    \<and> (\<forall>k<length sel_ids. sfull ! (sel_ids ! k) = ?ws ! k \<and> length (?ws ! k) = 4))"
  proof (cases "sf = None \<or> sel_ids = []")
    case True
    then show ?thesis by (auto simp: dp'_def)
  next
    case False
    then obtain rows where sf: "sf = Some rows" and ne: "sel_ids \<noteq> []" by auto
    have lrows: "length (map snd rows) = length ?e"
      using assms(6) by (simp add: spread_fits_def sf)
    have ws: "?ws = map (atom_spread L ?box cutoff ?e (map snd rows)) ?refs"
      by (simp add: sf)
    have a: "data_wannier_spread dp' = Some [?sfull]"
      using sf ne by (simp add: dp'_def)
    have b: "length ?sfull = ?n" by (simp add: length_scatter)
    have c: "\<forall>i<length ?sfull. i \<notin> set sel_ids \<longrightarrow> ?sfull ! i = [0, 0, 0, 0]"
      by (simp add: length_scatter scatter_outside)
    have d: "\<forall>k<length sel_ids. ?sfull ! (sel_ids ! k) = ?ws ! k"
      using dist rng lws sf by (intro allI impI scatter_inside) simp_all
    have e: "\<forall>k<length sel_ids. length (?ws ! k) = 4"
      using assms(7) by (simp add: ws length_atom_spread [OF lrows])
    from a b c d e False show ?thesis by auto
  qed
  have lad: "length ?ad = length sel_ids" by simp
  from run lad ext dip lfull zero sel spread show ?thesis by blast
qed

theorem valid_frame_scatter_witness:
  "data_cells frame_ok = [cell10]
   \<and> get_sel_ids frame_ok [''O'', ''H''] [0] = Inr [0, 2]
   \<and> atoms_mask (map (\<lambda>s. s = ''X'') (symbols wannier_ok)) wannier_ok = centres_ok
   \<and> spread_fits (Some spread_ok) (positions centres_ok)
   \<and> matched_ids box_geometry (cell_to_cellpar box_geometry cell10) 1 (positions centres_ok)
        (map ((!) [(0, 0, 0), (1, 1, 0), (5, 5, 5)]) [0, 2]) = [0, 1, 2, 3, 4, 5, 6, 7]
   \<and> set_dplr_ext_from_cp2k_output box_geometry frame_ok wannier_ok [''O'', ''H''] [0] 1
        (Some spread_ok)
      = Inr (frame_ok\<lparr>data_atomic_dipole := Some [[(0, 1/8, 1/8), (0, 0, 0), (0, 1/8, - (1/8))]],
               data_wannier_spread := Some [[[11, 12, 13, 14], [0, 0, 0, 0], [15, 16, 17, 18]]]\<rparr>)
   \<and> (\<exists>ad ext ws dp' full.
           get_atomic_dipole box_geometry frame_ok [0, 2] centres_ok 1 (Some spread_ok)
             = Inr (ad, ext, ws)
         \<and> length ad = length [0, 2 :: nat]
         \<and> set_dplr_ext_from_cp2k_output box_geometry frame_ok wannier_ok [''O'', ''H''] [0] 1
              (Some spread_ok) = Inr dp'
         \<and> data_atomic_dipole dp' = Some [full]
         \<and> length full = length (data_atom_types frame_ok)
         \<and> (\<forall>i<length full. i \<notin> set [0, 2 :: nat] \<longrightarrow> full ! i = (0, 0, 0))
         \<and> (\<forall>k<length [0, 2 :: nat]. full ! ([0, 2] ! k) = ad ! k)
         \<and> (\<exists>sfull. data_wannier_spread dp' = Some [sfull]
                \<and> length sfull = length (data_atom_types frame_ok)
                \<and> (\<forall>i<length sfull. i \<notin> set [0, 2 :: nat] \<longrightarrow> sfull ! i = [0, 0, 0, 0])
                \<and> (\<forall>k<length [0, 2 :: nat]. sfull ! ([0, 2] ! k) = ws ! k \<and> length (ws ! k) = 4)))"
proof -
  let ?xs = "[(0, 0, 0), (1, 1, 0), (5, 5, 5)] :: vec3 list"
  have c: "data_cells frame_ok = [cell10]" by (simp add: frame_ok_def)
  have xs: "data_coords frame_ok = [?xs]" by (simp add: frame_ok_def)
  have n: "length ?xs = length (data_atom_types frame_ok)" by (simp add: frame_ok_def)
  have sel: "get_sel_ids frame_ok [''O'', ''H''] [0] = Inr [0, 2]"
    by (simp add: get_sel_ids_def frame_ok_def ebind_def py_index_def isin_where_def)
  have w: "centres_ok = atoms_mask (map (\<lambda>s. s = ''X'') (symbols wannier_ok)) wannier_ok"
    by (simp add: atoms_mask_def wannier_ok_def centres_ok_def np_select_def)
  have fit: "spread_fits (Some spread_ok) (positions centres_ok)"
    by (simp add: spread_fits_def spread_ok_def centres_ok_def)
  have four: "\<forall>i\<in>set [0, 2 :: nat].
      length (centres_within box_geometry (cell_to_cellpar box_geometry cell10) 1
                (positions centres_ok) (?xs ! i)) = 4"
    by (simp add: box_eval centres_ok_def)
  have m: "matched_ids box_geometry (cell_to_cellpar box_geometry cell10) 1 (positions centres_ok)
        (map ((!) ?xs) [0, 2]) = [0, 1, 2, 3, 4, 5, 6, 7]"
    by (simp add: box_eval centres_ok_def)
  have d: "distinct (matched_ids box_geometry (cell_to_cellpar box_geometry cell10) 1
        (positions centres_ok) (map ((!) ?xs) [0, 2]))"
    unfolding m by simp
  have run: "set_dplr_ext_from_cp2k_output box_geometry frame_ok wannier_ok [''O'', ''H''] [0] 1
        (Some spread_ok)
      = Inr (frame_ok\<lparr>data_atomic_dipole := Some [[(0, 1/8, 1/8), (0, 0, 0), (0, 1/8, - (1/8))]],
               data_wannier_spread := Some [[[11, 12, 13, 14], [0, 0, 0, 0], [15, 16, 17, 18]]]\<rparr>)"
    by (simp add: run_eval scatter_def frame_ok_def wannier_ok_def spread_ok_def)
  from valid_frame_scatter [OF c xs n sel w fit four d]
  have "\<exists>ad ext ws dp' full.
           get_atomic_dipole box_geometry frame_ok [0, 2] centres_ok 1 (Some spread_ok)
             = Inr (ad, ext, ws)
         \<and> length ad = length [0, 2 :: nat]
         \<and> set_dplr_ext_from_cp2k_output box_geometry frame_ok wannier_ok [''O'', ''H''] [0] 1
              (Some spread_ok) = Inr dp'
         \<and> data_atomic_dipole dp' = Some [full]
         \<and> length full = length (data_atom_types frame_ok)
         \<and> (\<forall>i<length full. i \<notin> set [0, 2 :: nat] \<longrightarrow> full ! i = (0, 0, 0))
         \<and> (\<forall>k<length [0, 2 :: nat]. full ! ([0, 2] ! k) = ad ! k)
         \<and> (\<exists>sfull. data_wannier_spread dp' = Some [sfull]
                \<and> length sfull = length (data_atom_types frame_ok)
                \<and> (\<forall>i<length sfull. i \<notin> set [0, 2 :: nat] \<longrightarrow> sfull ! i = [0, 0, 0, 0])
                \<and> (\<forall>k<length [0, 2 :: nat]. sfull ! ([0, 2] ! k) = ws ! k \<and> length (ws ! k) = 4))"
    by (simp only: option.distinct list.distinct simp_thms if_False)
  with c sel w [symmetric] fit m run show ?thesis by (intro conjI)
qed

end
